theory Spec2Isabelle
  imports Complex_Main "HOL-Library.Log_Nat"
begin

section \<open>Values exchanged with the backend\<close>

text \<open>
  A decoded JSON document, as \<open>response.json()\<close> returns it. Text is a list of
  characters, each standing for one code point below 256; an object keeps its members in
  document order.
\<close>

datatype json =
    JNull
  | JBool bool
  | JInt int
  | JFloat rat
  | JStr string
  | JArr "json list"
  | JObj "(string \<times> json) list"

datatype key = User_id int | Field string

datatype error =
    KeyError key
  | IndexError
  | TypeError
  | AttributeError
  | ValueError
  | ZeroDivisionError
  | OverflowError
  | JSONDecodeError
  | FileNotFoundError

text \<open>
  An HTTP response: the status line and the decoded body. For the endpoints whose body
  the handlers only subscript, the body is \<open>json option\<close>, with \<open>None\<close> for a body
  that \<open>response.json()\<close> cannot decode.
\<close>

record 'a response =
  status :: int
  body :: 'a

text \<open>\<open>d[k]\<close> on a decoded document: only an object can be subscripted by a string.\<close>

fun getitem :: "json \<Rightarrow> string \<Rightarrow> error + json" where
  "getitem (JObj kvs) k =
     (case map_of (rev kvs) k of None \<Rightarrow> Inl (KeyError (Field k)) | Some v \<Rightarrow> Inr v)"
| "getitem _ k = Inl TypeError"

text \<open>\<open>d.get(k, default)\<close>: only an object has the method.\<close>

fun get_default :: "json \<Rightarrow> string \<Rightarrow> json \<Rightarrow> error + json" where
  "get_default (JObj kvs) k d =
     (case map_of (rev kvs) k of None \<Rightarrow> Inr d | Some v \<Rightarrow> Inr v)"
| "get_default _ k d = Inl AttributeError"

section \<open>Text\<close>

text \<open>\<open>s.startswith(p)\<close> and \<open>p in s\<close>.\<close>

definition startswith :: "string \<Rightarrow> string \<Rightarrow> bool" where
  "startswith s p = (take (length p) s = p)"

fun contains :: "string \<Rightarrow> string \<Rightarrow> bool" where
  "contains [] p = (p = [])"
| "contains (c # cs) p = (startswith (c # cs) p \<or> contains cs p)"

text \<open>
  \<open>str.isspace\<close> on one code point below 256: the ASCII controls 9 to 13 and 28 to 31,
  the space, NEL (133) and the no-break space (160).
\<close>

definition isspace :: "char \<Rightarrow> bool" where
  "isspace c =
     (let n = of_char c :: nat
      in (9 \<le> n \<and> n \<le> 13) \<or> (28 \<le> n \<and> n \<le> 32) \<or> n = 133 \<or> n = 160)"

definition strip :: "string \<Rightarrow> string" where
  "strip s = rev (dropWhile isspace (rev (dropWhile isspace s)))"

text \<open>
  \<open>str.lower\<close> on one code point below 256: the letters A to Z, and the accented
  capitals 192 to 222 except the multiplication sign 215, move up by 32.
\<close>

definition lower_char :: "char \<Rightarrow> char" where
  "lower_char c =
     (let n = of_char c :: nat
      in if (65 \<le> n \<and> n \<le> 90) \<or> (192 \<le> n \<and> n \<le> 222 \<and> n \<noteq> 215)
         then char_of (n + 32) else c)"

definition lower :: "string \<Rightarrow> string" where
  "lower s = map lower_char s"

text \<open>\<open>s.split(c)\<close>, \<open>s.split(c, 1)\<close> and \<open>xs[i]\<close> with Python's negative indices.\<close>

fun split :: "char \<Rightarrow> string \<Rightarrow> string list" where
  "split c [] = [[]]"
| "split c (x # xs) =
     (if x = c then [] # split c xs
      else (case split c xs of [] \<Rightarrow> [[x]] | y # ys \<Rightarrow> (x # y) # ys))"

definition split_once :: "char \<Rightarrow> string \<Rightarrow> string list" where
  "split_once c s =
     (if c \<in> set s then [takeWhile (\<lambda>x. x \<noteq> c) s, tl (dropWhile (\<lambda>x. x \<noteq> c) s)]
      else [s])"

definition index :: "'a list \<Rightarrow> int \<Rightarrow> error + 'a" where
  "index xs i =
     (if 0 \<le> i \<and> i < int (length xs) then Inr (xs ! nat i)
      else if i < 0 \<and> - int (length xs) \<le> i then Inr (xs ! nat (int (length xs) + i))
      else Inl IndexError)"

text \<open>
  \<open>int(s)\<close> in base 10: surrounding white space is dropped, one sign may lead, and the
  digits may be grouped by single underscores. \<open>None\<close> stands for ValueError. The white
  space of \<open>int\<close> is narrower than that of \<open>str.strip\<close>: the controls 28 to 31 are not
  part of it. The interpreter's limit on the number of digits is above the longest chat
  message and is left out.
\<close>

definition int_space :: "char \<Rightarrow> bool" where
  "int_space c =
     (let n = of_char c :: nat
      in (9 \<le> n \<and> n \<le> 13) \<or> n = 32 \<or> n = 133 \<or> n = 160)"

definition int_trim :: "string \<Rightarrow> string" where
  "int_trim s = rev (dropWhile int_space (rev (dropWhile int_space s)))"

definition isdigit :: "char \<Rightarrow> bool" where
  "isdigit c = (48 \<le> (of_char c :: nat) \<and> (of_char c :: nat) \<le> 57)"

definition digit_value :: "char \<Rightarrow> int" where
  "digit_value c = int (of_char c) - 48"

fun parse_digits :: "int \<Rightarrow> string \<Rightarrow> int option" where
  "parse_digits acc [] = Some acc"
| "parse_digits acc [c] = (if isdigit c then Some (acc * 10 + digit_value c) else None)"
| "parse_digits acc (c # d # ds) =
     (if isdigit c then parse_digits (acc * 10 + digit_value c) (d # ds)
      else if c = CHR ''_'' \<and> isdigit d then parse_digits (acc * 10 + digit_value d) ds
      else None)"

definition parse_unsigned :: "string \<Rightarrow> int option" where
  "parse_unsigned s =
     (case s of [] \<Rightarrow> None
      | c # cs \<Rightarrow> if isdigit c then parse_digits (digit_value c) cs else None)"

definition py_int :: "string \<Rightarrow> int option" where
  "py_int s =
     (case int_trim s of [] \<Rightarrow> None
      | c # cs \<Rightarrow>
          if c = CHR ''+'' then parse_unsigned cs
          else if c = CHR ''-'' then map_option uminus (parse_unsigned cs)
          else parse_unsigned (c # cs))"

section \<open>Sessions and the conversation state\<close>

record card =
  card_id :: json
  card_term :: string
  definition_text :: string

record question =
  question_text :: string
  options :: "string list"
  correct_answer :: string

record quiz =
  quiz_id :: json
  title :: string
  description :: "string option"
  questions :: "question list"

text \<open>
  One entry of \<open>USER_SESSIONS\<close>: a dictionary with a fixed set of possible keys, each
  present (\<open>Some\<close>) or absent (\<open>None\<close>).
\<close>

record session =
  role :: "string option"
  username :: "string option"
  access_token :: "json option"
  refresh_token :: "json option"
  current_flashcards :: "card list option"
  current_index :: "int option"
  current_quiz :: "quiz option"
  current_question :: "int option"
  correct_answers :: "int option"

definition empty_session :: session where
  "empty_session =
     \<lparr>role = None, username = None, access_token = None, refresh_token = None,
      current_flashcards = None, current_index = None, current_quiz = None,
      current_question = None, correct_answers = None\<rparr>"

datatype fsm_state =
    AuthStates_waiting_for_username
  | AuthStates_waiting_for_password
  | TeacherStates_waiting_for_audio
  | TeacherStates_waiting_for_title
  | TeacherStates_waiting_for_description
  | TeacherStates_waiting_for_subject
  | TeacherStates_waiting_for_content_type
  | TeacherStates_waiting_for_count
  | StudentStates_waiting_for_subject
  | StudentStates_waiting_for_term
  | StudentStates_in_learning_session
  | StudentStates_in_review_session

text \<open>The data kept by the framework beside the state (\<open>state.proxy()\<close>).\<close>

record draft =
  subject_id :: "string option"
  audio_file_path :: "string option"
  draft_title :: "string option"
  draft_description :: "string option"
  content_type :: "string option"

definition empty_draft :: draft where
  "empty_draft =
     \<lparr>subject_id = None, audio_file_path = None, draft_title = None,
      draft_description = None, content_type = None\<rparr>"

section \<open>Floating point\<close>

text \<open>
  A finite double is modelled by its exact value, a rational number; the sign of a zero is
  not kept. \<open>nearest_double\<close> rounds a rational to the double nearest to it, ties to the
  even significand: the significand has 53 bits, and below the exponent -1022 the
  spacing stays that of the subnormal numbers, 2 to the power -1074. A result of
  magnitude 2 to the power 1024 or more is an overflow.
\<close>

definition round_half_even :: "rat \<Rightarrow> int" where
  "round_half_even x =
     (let f = \<lfloor>x\<rfloor>; r = x - of_int f
      in if r < 1 / 2 then f else if 1 / 2 < r then f + 1 else if even f then f else f + 1)"

text \<open>For a positive \<open>x\<close>, the exponent \<open>e\<close> with \<open>2 powi e \<le> x < 2 powi (e + 1)\<close>.\<close>

definition binade :: "rat \<Rightarrow> int" where
  "binade x =
     (let e0 = bitlen (fst (quotient_of x)) - bitlen (snd (quotient_of x))
      in if 2 powi e0 \<le> x then e0 else e0 - 1)"

definition nearest_double :: "rat \<Rightarrow> rat" where
  "nearest_double x =
     (if x = 0 then 0
      else let u = max (binade \<bar>x\<bar> - 52) (- 1074)
           in sgn x * of_int (round_half_even (\<bar>x\<bar> / 2 powi u)) * 2 powi u)"

datatype pyfloat = Finite rat | Plus_inf | Minus_inf

text \<open>
  \<open>a / b\<close> on two integers: the quotient, correctly rounded; a zero divisor and a quotient
  too large for a double raise.
\<close>

definition int_true_divide :: "int \<Rightarrow> int \<Rightarrow> error + rat" where
  "int_true_divide a b =
     (if b = 0 then Inl ZeroDivisionError
      else let r = nearest_double (of_int a / of_int b)
           in if 2 ^ 1024 \<le> \<bar>r\<bar> then Inl OverflowError else Inr r)"

text \<open>\<open>x * y\<close> on two finite doubles: the product, rounded; an overflow gives an infinity.\<close>

definition float_times :: "rat \<Rightarrow> rat \<Rightarrow> pyfloat" where
  "float_times x y =
     (let r = nearest_double (x * y)
      in if 2 ^ 1024 \<le> r then Plus_inf else if r \<le> - (2 ^ 1024) then Minus_inf
         else Finite r)"

text \<open>\<open>(correct / total) * 100\<close>, as the completion branch of the quiz computes it.\<close>

definition percentage :: "int \<Rightarrow> int \<Rightarrow> error + pyfloat" where
  "percentage correct tot =
     (case int_true_divide correct tot of Inl e \<Rightarrow> Inl e
      | Inr q \<Rightarrow> Inr (float_times q 100))"

section \<open>What a handler sends\<close>

datatype request =
    Token_post string string
  | Subjects_get json
  | Upload_post json string string string string
  | Generate_post json string json int string
  | New_cards_get json
  | Due_reviews_get json
  | Swipe_post json json string
  | Review_post json json bool
  | All_quizzes_get json
  | Quiz_get json string
  | Complete_post json json pyfloat

text \<open>The outbound texts, one constructor for each template of the source.\<close>

datatype msg =
    Enter_username
  | Enter_password
  | Login_failed
  | Login_first
  | Teacher_menu
  | Student_menu
  | Select_subject "(json \<times> json) list"
  | Subjects_failed
  | Send_audio
  | Downloading
  | Enter_title
  | Enter_description
  | Choose_content_type
  | How_many
  | Uploading
  | Content_generated "json option" "json option"
  | Generation_failed json
  | Upload_failed json
  | Loading_new
  | No_new_cards
  | Loading_due
  | No_due_cards
  | Cards_failed
  | Session_complete
  | Show_card int int string
  | Show_card_answer int int string string
  | Great_job
  | No_problem
  | No_quizzes
  | Select_quiz "(json \<times> json) list"
  | Quizzes_failed
  | Quiz_failed
  | Starting_quiz string string
  | Quiz_completed int int pyfloat
  | Returning_menu
  | Show_question int int string "string list"

datatype event =
    Send msg
  | Edit msg
  | Delete_message
  | Answer_callback "msg option"
  | Backend request

text \<open>
  Everything a handler reads or changes: the global \<open>USER_SESSIONS\<close>, the framework's
  state and data for each user, the temporary files on disk, and the log of what was sent,
  oldest first.
\<close>

record world =
  USER_SESSIONS :: "int \<rightharpoonup> session"
  fsm :: "int \<rightharpoonup> fsm_state"
  fsm_data :: "int \<Rightarrow> draft"
  files :: "string set"
  outbox :: "event list"

text \<open>
  A handler either returns or raises; what it changed before raising stays changed.
\<close>

datatype outcome = Done world | Raised error world

definition world_of :: "outcome \<Rightarrow> world" where
  "world_of r = (case r of Done w \<Rightarrow> w | Raised e w \<Rightarrow> w)"

definition raised :: "outcome \<Rightarrow> error option" where
  "raised r = (case r of Done w \<Rightarrow> None | Raised e w \<Rightarrow> Some e)"

definition emit :: "event \<Rightarrow> world \<Rightarrow> world" where
  "emit e w = w\<lparr>outbox := outbox w @ [e]\<rparr>"

definition set_state :: "int \<Rightarrow> fsm_state \<Rightarrow> world \<Rightarrow> world" where
  "set_state uid st w = w\<lparr>fsm := (fsm w)(uid \<mapsto> st)\<rparr>"

text \<open>\<open>state.finish()\<close> drops the state and the data.\<close>

definition finish :: "int \<Rightarrow> world \<Rightarrow> world" where
  "finish uid w = w\<lparr>fsm := (fsm w)(uid := None), fsm_data := (fsm_data w)(uid := empty_draft)\<rparr>"

text \<open>\<open>USER_SESSIONS[user_id]\<close> and \<open>d[k]\<close> on a session or on the draft.\<close>

definition the_session :: "int \<Rightarrow> world \<Rightarrow> (session \<Rightarrow> outcome) \<Rightarrow> outcome" where
  "the_session uid w k =
     (case USER_SESSIONS w uid of None \<Rightarrow> Raised (KeyError (User_id uid)) w | Some s \<Rightarrow> k s)"

definition item :: "string \<Rightarrow> 'a option \<Rightarrow> world \<Rightarrow> ('a \<Rightarrow> outcome) \<Rightarrow> outcome" where
  "item name v w k = (case v of None \<Rightarrow> Raised (KeyError (Field name)) w | Some x \<Rightarrow> k x)"

definition attempt :: "error + 'a \<Rightarrow> world \<Rightarrow> ('a \<Rightarrow> outcome) \<Rightarrow> outcome" where
  "attempt r w k = (case r of Inl e \<Rightarrow> Raised e w | Inr x \<Rightarrow> k x)"

text \<open>\<open>response.json()\<close> on a body that may not decode.\<close>

definition json_of :: "json option response \<Rightarrow> error + json" where
  "json_of resp = (case body resp of None \<Rightarrow> Inl JSONDecodeError | Some d \<Rightarrow> Inr d)"

section \<open>Authentication\<close>

definition show_teacher_menu :: "world \<Rightarrow> world" where
  "show_teacher_menu w = emit (Send Teacher_menu) w"

definition show_student_menu :: "world \<Rightarrow> world" where
  "show_student_menu w = emit (Send Student_menu) w"

text \<open>
  \<open>login_handler\<close>: the entry of the user is assigned a new dictionary that holds the role
  only.
\<close>

definition login_handler :: "int \<Rightarrow> string \<Rightarrow> world \<Rightarrow> outcome" where
  "login_handler user_id msg_text w =
     (let w1 = w\<lparr>USER_SESSIONS := (USER_SESSIONS w)(user_id \<mapsto>
                  empty_session\<lparr>role := Some (if contains msg_text ''Teacher'' then ''teacher''
                                                 else ''student'')\<rparr>)\<rparr>;
          w2 = set_state user_id AuthStates_waiting_for_username w1
      in Done (emit (Send Enter_username) w2))"

definition process_username :: "int \<Rightarrow> string \<Rightarrow> world \<Rightarrow> outcome" where
  "process_username user_id msg_text w =
     the_session user_id w (\<lambda>s.
       let w1 = w\<lparr>USER_SESSIONS := (USER_SESSIONS w)(user_id \<mapsto> s\<lparr>username := Some msg_text\<rparr>)\<rparr>;
           w2 = set_state user_id AuthStates_waiting_for_password w1
       in Done (emit (Send Enter_password) w2))"

text \<open>
  \<open>process_password\<close>, given the response of the token endpoint. The tokens are stored one
  after the other, so a body with \<open>access\<close> and without \<open>refresh\<close> leaves the first stored.
\<close>

definition process_password :: "int \<Rightarrow> string \<Rightarrow> json option response \<Rightarrow> world \<Rightarrow> outcome" where
  "process_password user_id msg_text resp w =
     the_session user_id w (\<lambda>s.
     item ''username'' (username s) w (\<lambda>uname.
     item ''role'' (role s) w (\<lambda>r.
       let w1 = emit Delete_message w;
           w2 = emit (Backend (Token_post uname msg_text)) w1
       in if status resp = 200 then
            attempt (json_of resp) w2 (\<lambda>data.
            attempt (getitem data ''access'') w2 (\<lambda>a.
              let w3 = w2\<lparr>USER_SESSIONS := (USER_SESSIONS w2)(user_id \<mapsto>
                            s\<lparr>access_token := Some a\<rparr>)\<rparr>
              in attempt (getitem data ''refresh'') w3 (\<lambda>rf.
                   let w4 = w3\<lparr>USER_SESSIONS := (USER_SESSIONS w3)(user_id \<mapsto>
                                 s\<lparr>access_token := Some a, refresh_token := Some rf\<rparr>)\<rparr>;
                       w5 = finish user_id w4
                   in Done (if r = ''teacher'' then show_teacher_menu w5
                            else show_student_menu w5))))
          else
            let w3 = emit (Send Login_failed) w2;
                w4 = set_state user_id AuthStates_waiting_for_username w3
            in Done (emit (Send Enter_username) w4))))"

section \<open>Teacher upload wizard\<close>

text \<open>
  The check that opens the menu handlers:
  \<open>user_id not in USER_SESSIONS or "access_token" not in USER_SESSIONS[user_id]\<close>.
\<close>

definition logged_in :: "int \<Rightarrow> world \<Rightarrow> bool" where
  "logged_in user_id w =
     (case USER_SESSIONS w user_id of None \<Rightarrow> False | Some s \<Rightarrow> access_token s \<noteq> None)"

definition upload_audio_handler ::
  "int \<Rightarrow> (json \<times> json) list response \<Rightarrow> world \<Rightarrow> outcome" where
  "upload_audio_handler user_id resp w =
     (if \<not> logged_in user_id w then Done (emit (Send Login_first) w)
      else
        the_session user_id w (\<lambda>s.
        item ''access_token'' (access_token s) w (\<lambda>tok.
          let w1 = emit (Backend (Subjects_get tok)) w
          in if status resp = 200 then
               Done (emit (Send (Select_subject (body resp)))
                      (set_state user_id TeacherStates_waiting_for_subject w1))
             else Done (emit (Send Subjects_failed) w1))))"

text \<open>
  \<open>process_audio\<close>: \<open>temp_name\<close> is the name the operating system gives to the temporary
  file, which is created with \<open>delete=False\<close> and so outlives the \<open>with\<close> block.
\<close>

definition process_audio :: "int \<Rightarrow> string \<Rightarrow> world \<Rightarrow> outcome" where
  "process_audio user_id temp_name w =
     (let w1 = emit (Send Downloading) w;
          w2 = w1\<lparr>files := insert temp_name (files w1)\<rparr>;
          w3 = emit (Send Enter_title) w2;
          w4 = set_state user_id TeacherStates_waiting_for_title w3
      in Done (w4\<lparr>fsm_data := (fsm_data w4)(user_id :=
                 (fsm_data w4 user_id)\<lparr>audio_file_path := Some temp_name\<rparr>)\<rparr>))"

text \<open>
  The steps between the subject list and the count: each stores one field of the draft,
  prompts for the next and moves the state on.
\<close>

definition process_subject_selection :: "int \<Rightarrow> string \<Rightarrow> world \<Rightarrow> outcome" where
  "process_subject_selection user_id data w =
     attempt (index (split CHR ''_'' data) 1) w (\<lambda>sid.
       let w1 = w\<lparr>fsm_data := (fsm_data w)(user_id :=
                  (fsm_data w user_id)\<lparr>subject_id := Some sid\<rparr>)\<rparr>;
           w2 = emit (Send Send_audio) (emit (Answer_callback None) w1)
       in Done (set_state user_id TeacherStates_waiting_for_audio w2))"

definition process_title :: "int \<Rightarrow> string \<Rightarrow> world \<Rightarrow> outcome" where
  "process_title user_id msg_text w =
     (let w1 = w\<lparr>fsm_data := (fsm_data w)(user_id :=
                  (fsm_data w user_id)\<lparr>draft_title := Some msg_text\<rparr>)\<rparr>;
          w2 = emit (Send Enter_description) w1
      in Done (set_state user_id TeacherStates_waiting_for_description w2))"

definition process_description :: "int \<Rightarrow> string \<Rightarrow> world \<Rightarrow> outcome" where
  "process_description user_id msg_text w =
     (let w1 = w\<lparr>fsm_data := (fsm_data w)(user_id :=
                  (fsm_data w user_id)\<lparr>draft_description := Some msg_text\<rparr>)\<rparr>;
          w2 = emit (Send Choose_content_type) w1
      in Done (set_state user_id TeacherStates_waiting_for_content_type w2))"

definition process_content_type :: "int \<Rightarrow> string \<Rightarrow> world \<Rightarrow> outcome" where
  "process_content_type user_id data w =
     attempt (index (split CHR ''_'' data) 1) w (\<lambda>ctype.
       let w1 = w\<lparr>fsm_data := (fsm_data w)(user_id :=
                  (fsm_data w user_id)\<lparr>content_type := Some ctype\<rparr>)\<rparr>;
           w2 = emit (Send How_many) (emit (Answer_callback None) w1)
       in Done (set_state user_id TeacherStates_waiting_for_count w2))"

text \<open>\<open>int(message.text)\<close> with its \<open>except ValueError\<close>.\<close>

definition parse_count :: "string \<Rightarrow> int" where
  "parse_count msg_text = (case py_int msg_text of Some n \<Rightarrow> n | None \<Rightarrow> 10)"

text \<open>The reply to a response that is not 201: \<open>error_data.get('error', 'Unknown error')\<close>.\<close>

definition error_text :: "json option response \<Rightarrow> error + json" where
  "error_text resp =
     (case json_of resp of Inl e \<Rightarrow> Inl e
      | Inr error_data \<Rightarrow> get_default error_data ''error'' (JStr ''Unknown error''))"

text \<open>The success text: the counts of the kinds of content that were asked for.\<close>

definition success_msg :: "string \<Rightarrow> json \<Rightarrow> error + msg" where
  "success_msg ctype gen_result =
     (case (if ctype \<in> set [''flashcards'', ''both'']
            then map_sum id Some (get_default gen_result ''flashcard_count'' (JInt 0))
            else Inr None) of
        Inl e \<Rightarrow> Inl e
      | Inr fc \<Rightarrow>
          (case (if ctype \<in> set [''quiz'', ''both'']
                 then map_sum id Some (get_default gen_result ''question_count'' (JInt 0))
                 else Inr None) of
             Inl e \<Rightarrow> Inl e
           | Inr qc \<Rightarrow> Inr (Content_generated fc qc)))"

text \<open>
  \<open>process_count_and_upload\<close>, given the responses of the upload and of the generation
  endpoint (the second is read only when the second call is made).
\<close>

definition process_count_and_upload ::
  "int \<Rightarrow> string \<Rightarrow> json option response \<Rightarrow> json option response \<Rightarrow> world \<Rightarrow> outcome" where
  "process_count_and_upload user_id msg_text response gen_response w =
     (let count = parse_count msg_text; data = fsm_data w user_id in
      item ''subject_id'' (subject_id data) w (\<lambda>sid.
      item ''audio_file_path'' (audio_file_path data) w (\<lambda>path.
      item ''title'' (draft_title data) w (\<lambda>ttl.
      item ''description'' (draft_description data) w (\<lambda>descr.
      item ''content_type'' (content_type data) w (\<lambda>ctype.
        let w1 = emit (Send Uploading) w in
        the_session user_id w1 (\<lambda>s.
        item ''access_token'' (access_token s) w1 (\<lambda>tok.
          if path \<notin> files w1 then Raised FileNotFoundError w1
          else
            let w2 = emit (Backend (Upload_post tok path ttl descr sid)) w1
            in if status response = 201 then
                 attempt (json_of response) w2 (\<lambda>audio_data.
                 attempt (getitem audio_data ''id'') w2 (\<lambda>audio_id.
                   let w3 = emit (Backend (Generate_post tok ctype audio_id count sid)) w2
                   in if status gen_response = 201 then
                        attempt (json_of gen_response) w3 (\<lambda>gen_result.
                        attempt (success_msg ctype gen_result) w3 (\<lambda>m.
                          let w4 = emit (Send m) w3;
                              w5 = w4\<lparr>files := files w4 - {path}\<rparr>;
                              w6 = finish user_id w5
                          in Done (show_teacher_menu w6)))
                      else
                        attempt (error_text gen_response) w3 (\<lambda>e.
                          Done (emit (Send (Generation_failed e)) w3))))
               else
                 attempt (error_text response) w2 (\<lambda>e.
                   Done (emit (Send (Upload_failed e)) w2))))))))))"

section \<open>Card review\<close>

text \<open>
  \<open>show_current_flashcard\<close>: past the last card it announces the end of the session and
  shows the student menu; the framework's state is not touched.
\<close>

definition show_current_flashcard :: "int \<Rightarrow> world \<Rightarrow> outcome" where
  "show_current_flashcard user_id w =
     the_session user_id w (\<lambda>s.
     item ''current_flashcards'' (current_flashcards s) w (\<lambda>flashcards.
     item ''current_index'' (current_index s) w (\<lambda>i.
       if i \<ge> int (length flashcards) then
         Done (show_student_menu (emit (Send Session_complete) w))
       else
         attempt (index flashcards i) w (\<lambda>current_card.
           Done (emit (Send (Show_card (i + 1) (int (length flashcards))
                              (definition_text current_card))) w)))))"

text \<open>
  The two entries of the review, given the response of the endpoint that lists the cards.
  They differ in the endpoint, the texts and the state that is set.
\<close>

definition learn_new_flashcards_handler :: "int \<Rightarrow> card list response \<Rightarrow> world \<Rightarrow> outcome" where
  "learn_new_flashcards_handler user_id resp w =
     (if \<not> logged_in user_id w then Done (emit (Send Login_first) w)
      else
        let w1 = emit (Send Loading_new) w in
        the_session user_id w1 (\<lambda>s.
        item ''access_token'' (access_token s) w1 (\<lambda>tok.
          let w2 = emit (Backend (New_cards_get tok)) w1
          in if status resp = 200 then
               (if body resp = [] then Done (emit (Send No_new_cards) w2)
                else
                  let w3 = w2\<lparr>USER_SESSIONS := (USER_SESSIONS w2)(user_id \<mapsto>
                                s\<lparr>current_flashcards := Some (body resp),
                                   current_index := Some 0\<rparr>)\<rparr>;
                      w4 = set_state user_id StudentStates_in_learning_session w3
                  in show_current_flashcard user_id w4)
             else Done (emit (Send Cards_failed) w2))))"

definition review_flashcards_handler :: "int \<Rightarrow> card list response \<Rightarrow> world \<Rightarrow> outcome" where
  "review_flashcards_handler user_id resp w =
     (if \<not> logged_in user_id w then Done (emit (Send Login_first) w)
      else
        let w1 = emit (Send Loading_due) w in
        the_session user_id w1 (\<lambda>s.
        item ''access_token'' (access_token s) w1 (\<lambda>tok.
          let w2 = emit (Backend (Due_reviews_get tok)) w1
          in if status resp = 200 then
               (if body resp = [] then Done (emit (Send No_due_cards) w2)
                else
                  let w3 = w2\<lparr>USER_SESSIONS := (USER_SESSIONS w2)(user_id \<mapsto>
                                s\<lparr>current_flashcards := Some (body resp),
                                   current_index := Some 0\<rparr>)\<rparr>;
                      w4 = set_state user_id StudentStates_in_review_session w3
                  in show_current_flashcard user_id w4)
             else Done (emit (Send Cards_failed) w2))))"

text \<open>\<open>USER_SESSIONS[user_id]["current_index"] += 1\<close>.\<close>

definition advance_index :: "int \<Rightarrow> world \<Rightarrow> (world \<Rightarrow> outcome) \<Rightarrow> outcome" where
  "advance_index user_id w k =
     the_session user_id w (\<lambda>s.
     item ''current_index'' (current_index s) w (\<lambda>i.
       k (w\<lparr>USER_SESSIONS := (USER_SESSIONS w)(user_id \<mapsto> s\<lparr>current_index := Some (i + 1)\<rparr>)\<rparr>)))"

definition show_answer_handler :: "int \<Rightarrow> world \<Rightarrow> outcome" where
  "show_answer_handler user_id w =
     the_session user_id w (\<lambda>s.
     item ''current_flashcards'' (current_flashcards s) w (\<lambda>flashcards.
     item ''current_index'' (current_index s) w (\<lambda>i.
     attempt (index flashcards i) w (\<lambda>current_card.
       Done (emit (Edit (Show_card_answer (i + 1) (int (length flashcards))
                          (definition_text current_card) (card_term current_card))) w)))))"

definition skip_card_handler :: "int \<Rightarrow> world \<Rightarrow> outcome" where
  "skip_card_handler user_id w =
     advance_index user_id w (\<lambda>w1.
       show_current_flashcard user_id (emit Delete_message (emit (Answer_callback None) w1)))"

text \<open>
  \<open>knew_it_handler\<close> and \<open>still_learning_handler\<close> are the same text except for the
  direction or flag they post and the acknowledgement, here the argument \<open>knew\<close>; the
  endpoint depends on the framework's state.
\<close>

definition grade_handler :: "bool \<Rightarrow> int \<Rightarrow> world \<Rightarrow> outcome" where
  "grade_handler knew user_id w =
     the_session user_id w (\<lambda>s.
     item ''current_flashcards'' (current_flashcards s) w (\<lambda>flashcards.
     item ''current_index'' (current_index s) w (\<lambda>i.
     attempt (index flashcards i) w (\<lambda>current_card.
     item ''access_token'' (access_token s) w (\<lambda>tok.
       let w1 = (if fsm w user_id = Some StudentStates_in_learning_session
                 then emit (Backend (Swipe_post tok (card_id current_card)
                                      (if knew then ''left'' else ''right''))) w
                 else emit (Backend (Review_post tok (card_id current_card) knew)) w)
       in advance_index user_id w1 (\<lambda>w2.
            let w3 = emit Delete_message (emit (Answer_callback None) w2);
                w4 = emit (Send (if knew then Great_job else No_problem)) w3
            in show_current_flashcard user_id w4))))))"

definition knew_it_handler :: "int \<Rightarrow> world \<Rightarrow> outcome" where
  "knew_it_handler user_id w = grade_handler True user_id w"

definition still_learning_handler :: "int \<Rightarrow> world \<Rightarrow> outcome" where
  "still_learning_handler user_id w = grade_handler False user_id w"

text \<open>
  The buttons of a card and their routing: the four callbacks are registered for the
  states \<open>in_learning_session\<close> and \<open>in_review_session\<close>; in any other state the update
  reaches none of them.
\<close>

datatype action = Show_answer | Skip | Knew_it | Still_learning

definition in_session :: "int \<Rightarrow> world \<Rightarrow> bool" where
  "in_session user_id w =
     (fsm w user_id = Some StudentStates_in_learning_session
      \<or> fsm w user_id = Some StudentStates_in_review_session)"

definition card_callback :: "int \<Rightarrow> action \<Rightarrow> world \<Rightarrow> outcome" where
  "card_callback user_id a w =
     (if \<not> in_session user_id w then Done w
      else (case a of
              Show_answer \<Rightarrow> show_answer_handler user_id w
            | Skip \<Rightarrow> skip_card_handler user_id w
            | Knew_it \<Rightarrow> knew_it_handler user_id w
            | Still_learning \<Rightarrow> still_learning_handler user_id w))"

text \<open>
  A sequence of taps, oldest first. A handler that raises leaves its changes behind and the
  next update is served from there.
\<close>

fun card_callbacks :: "int \<Rightarrow> action list \<Rightarrow> world \<Rightarrow> world" where
  "card_callbacks user_id [] w = w"
| "card_callbacks user_id (a # as) w =
     card_callbacks user_id as (world_of (card_callback user_id a w))"

definition cursor :: "int \<Rightarrow> world \<Rightarrow> int" where
  "cursor user_id w =
     (case USER_SESSIONS w user_id of None \<Rightarrow> 0
      | Some s \<Rightarrow> (case current_index s of None \<Rightarrow> 0 | Some i \<Rightarrow> i))"

section \<open>Quiz\<close>

definition take_quiz_handler :: "int \<Rightarrow> (json \<times> json) list response \<Rightarrow> world \<Rightarrow> outcome" where
  "take_quiz_handler user_id resp w =
     (if \<not> logged_in user_id w then Done (emit (Send Login_first) w)
      else
        the_session user_id w (\<lambda>s.
        item ''access_token'' (access_token s) w (\<lambda>tok.
          let w1 = emit (Backend (All_quizzes_get tok)) w
          in if status resp = 200 then
               (if body resp = [] then Done (emit (Send No_quizzes) w1)
                else Done (emit (Send (Select_quiz (body resp))) w1))
             else Done (emit (Send Quizzes_failed) w1))))"

text \<open>
  \<open>show_quiz_question\<close>: past the last question it computes the percentage as
  \<open>(correct / total) * 100\<close> in double precision, reports it and posts it.
\<close>

definition show_quiz_question :: "int \<Rightarrow> world \<Rightarrow> outcome" where
  "show_quiz_question user_id w =
     the_session user_id w (\<lambda>s.
     item ''current_quiz'' (current_quiz s) w (\<lambda>qz.
     item ''current_question'' (current_question s) w (\<lambda>i.
       if i \<ge> int (length (questions qz)) then
         item ''correct_answers'' (correct_answers s) w (\<lambda>correct.
           let tot = int (length (questions qz)) in
           attempt (percentage correct tot) w (\<lambda>pct.
             let w1 = emit (Send (Quiz_completed correct tot pct)) w
             in item ''access_token'' (access_token s) w1 (\<lambda>tok.
                  let w2 = emit (Backend (Complete_post tok (quiz_id qz) pct)) w1;
                      w3 = emit (Send Returning_menu) w2
                  in Done (show_student_menu w3))))
       else
         attempt (index (questions qz) i) w (\<lambda>current.
           Done (emit (Send (Show_question (i + 1) (int (length (questions qz)))
                              (question_text current) (options current))) w)))))"

text \<open>
  \<open>start_quiz\<close>, given the callback data and the response of the quiz endpoint. The token
  is read from the session without a check.
\<close>

definition start_quiz :: "int \<Rightarrow> string \<Rightarrow> quiz response \<Rightarrow> world \<Rightarrow> outcome" where
  "start_quiz user_id data resp w =
     attempt (index (split CHR ''_'' data) 1) w (\<lambda>qid.
     the_session user_id w (\<lambda>s.
     item ''access_token'' (access_token s) w (\<lambda>tok.
       let w1 = emit (Backend (Quiz_get tok qid)) w
       in if status resp = 200 then
            let qz = body resp;
                w2 = w1\<lparr>USER_SESSIONS := (USER_SESSIONS w1)(user_id \<mapsto>
                           s\<lparr>current_quiz := Some qz, current_question := Some 0,
                              correct_answers := Some 0\<rparr>)\<rparr>;
                w3 = emit Delete_message (emit (Answer_callback None) w2);
                w4 = emit (Send (Starting_quiz (title qz)
                                   (case description qz of None \<Rightarrow> [] | Some d \<Rightarrow> d))) w3
            in show_quiz_question user_id w4
          else Done (emit (Answer_callback (Some Quiz_failed)) w1))))"

text \<open>The comparison that grades an answer.\<close>

definition matches :: "string \<Rightarrow> string \<Rightarrow> bool" where
  "matches selected_option answer = (lower (strip selected_option) = lower (strip answer))"

text \<open>
  \<open>quiz_answer_handler\<close>, given the callback data: the counter is raised on a match, the
  position always.
\<close>

definition next_question :: "int \<Rightarrow> session \<Rightarrow> int \<Rightarrow> world \<Rightarrow> outcome" where
  "next_question user_id s i w =
     (let w1 = w\<lparr>USER_SESSIONS := (USER_SESSIONS w)(user_id \<mapsto>
                  s\<lparr>current_question := Some (i + 1)\<rparr>)\<rparr>;
          w2 = emit Delete_message (emit (Answer_callback None) w1)
      in show_quiz_question user_id w2)"

definition quiz_answer_handler :: "int \<Rightarrow> string \<Rightarrow> world \<Rightarrow> outcome" where
  "quiz_answer_handler user_id data w =
     the_session user_id w (\<lambda>s.
     item ''current_quiz'' (current_quiz s) w (\<lambda>qz.
     item ''current_question'' (current_question s) w (\<lambda>i.
     attempt (index (questions qz) i) w (\<lambda>current.
     attempt (index (split_once CHR ''_'' data) 1) w (\<lambda>selected_option.
       if matches selected_option (correct_answer current) then
         item ''correct_answers'' (correct_answers s) w (\<lambda>c.
           next_question user_id (s\<lparr>correct_answers := Some (c + 1)\<rparr>) i w)
       else next_question user_id s i w)))))"

text \<open>
  A run of answers, oldest first: one tap for each element of \<open>choices\<close>, carrying the
  text of the chosen option after \<open>option_\<close>.
\<close>

fun quiz_answers :: "int \<Rightarrow> string list \<Rightarrow> world \<Rightarrow> world" where
  "quiz_answers user_id [] w = w"
| "quiz_answers user_id (c # cs) w =
     quiz_answers user_id cs (world_of (quiz_answer_handler user_id (''option_'' @ c) w))"


section \<open>Example states and reference functions\<close>

definition initial_world :: world where
  "initial_world =
     \<lparr>USER_SESSIONS = Map.empty, fsm = Map.empty, fsm_data = (\<lambda>u. empty_draft),
      files = {}, outbox = []\<rparr>"

definition student_session :: session where
  "student_session =
     empty_session\<lparr>role := Some ''student'', username := Some ''amina'',
                   access_token := Some (JStr ''tok''), refresh_token := Some (JStr ''ref'')\<rparr>"

definition student_world :: world where
  "student_world = initial_world\<lparr>USER_SESSIONS := [7 \<mapsto> student_session]\<rparr>"

definition password_world :: world where
  "password_world =
     initial_world\<lparr>USER_SESSIONS := [7 \<mapsto> empty_session\<lparr>role := Some ''student'',
                                                          username := Some ''amina''\<rparr>],
                   fsm := [7 \<mapsto> AuthStates_waiting_for_password]\<rparr>"

definition teacher_session :: session where
  "teacher_session =
     empty_session\<lparr>role := Some ''teacher'', username := Some ''broek'',
                   access_token := Some (JStr ''tok''), refresh_token := Some (JStr ''ref'')\<rparr>"

definition teacher_world :: world where
  "teacher_world = initial_world\<lparr>USER_SESSIONS := [3 \<mapsto> teacher_session]\<rparr>"

text \<open>
  A teacher who went through the wizard up to the question for the count; the audio was
  saved as \<open>/tmp/tmpk3.ogg\<close>.
\<close>

definition lesson_wizard :: world where
  "lesson_wizard =
     world_of (process_content_type 3 ''content_both''
    (world_of (process_description 3 ''Week 2''
    (world_of (process_title 3 ''Cells''
    (world_of (process_audio 3 ''/tmp/tmpk3.ogg''
    (world_of (process_subject_selection 3 ''subject_4''
    (world_of (upload_audio_handler 3 \<lparr>status = 200, body = [(JStr ''Biology'', JInt 4)]\<rparr>
       teacher_world)))))))))))"

text \<open>The same state written out, with an empty log.\<close>

definition lesson_draft :: draft where
  "lesson_draft =
     \<lparr>subject_id = Some ''4'', audio_file_path = Some ''/tmp/tmpk3.ogg'',
      draft_title = Some ''Cells'', draft_description = Some ''Week 2'',
      content_type = Some ''both''\<rparr>"

definition wizard_world :: world where
  "wizard_world =
     initial_world\<lparr>USER_SESSIONS := [3 \<mapsto> teacher_session],
                   fsm := [3 \<mapsto> TeacherStates_waiting_for_count],
                   fsm_data := (\<lambda>u. empty_draft)(3 := lesson_draft),
                   files := {''/tmp/tmpk3.ogg''}\<rparr>"

definition empty_quiz :: quiz where
  "empty_quiz = \<lparr>quiz_id = JInt 5, title = ''Warm-up'', description = None, questions = []\<rparr>"

definition capital_quiz :: quiz where
  "capital_quiz =
     \<lparr>quiz_id = JInt 6, title = ''Capitals'', description = Some ''Europe'',
      questions = [\<lparr>question_text = ''Capital of France?'',
                     options = [''Rome'', '' paris ''], correct_answer = ''Paris''\<rparr>]\<rparr>"

definition capital_attempt :: world where
  "capital_attempt =
     world_of (start_quiz 7 ''quiz_6'' \<lparr>status = 200, body = capital_quiz\<rparr> student_world)"

definition one_card :: "card list" where
  "one_card = [\<lparr>card_id = JInt 11, card_term = ''mitosis'', definition_text = ''cell division''\<rparr>]"

definition one_card_session :: world where
  "one_card_session =
     world_of (learn_new_flashcards_handler 7 \<lparr>status = 200, body = one_card\<rparr> student_world)"

text \<open>
  The value of a string of decimal digits, the number of completion notices in a log, the
  quiz results reported in a log, and the number of choices that equal the expected answer
  once both are trimmed and lower-cased: what the properties below compare the handlers
  with.
\<close>

definition decimal_value :: "string \<Rightarrow> int" where
  "decimal_value s = foldl (\<lambda>a c. a * 10 + digit_value c) 0 s"

definition completions :: "event list \<Rightarrow> nat" where
  "completions es = length (filter (\<lambda>e. e = Send Session_complete) es)"

definition grading :: "action \<Rightarrow> bool" where
  "grading a = (a = Skip \<or> a = Knew_it \<or> a = Still_learning)"

definition scores :: "event list \<Rightarrow> (int \<times> int \<times> pyfloat) list" where
  "scores es =
     concat (map (\<lambda>e. case e of Send (Quiz_completed c t p) \<Rightarrow> [(c, t, p)] | _ \<Rightarrow> []) es)"

fun count_correct :: "string list \<Rightarrow> question list \<Rightarrow> int" where
  "count_correct (c # cs) (q # qs) =
     (if lower (strip c) = lower (strip (correct_answer q)) then 1 else 0) + count_correct cs qs"
| "count_correct _ _ = 0"

text \<open>
  What \<open>int\<close> accepts, said without a parser: between leading and trailing white space,
  an optional sign and then decimal digits, with single underscores allowed between
  digits. The value is that of the digits, negated after a minus sign.
\<close>

definition digit_groups :: "string \<Rightarrow> bool" where
  "digit_groups b =
     (b \<noteq> [] \<and> isdigit (hd b) \<and> isdigit (last b)
      \<and> (\<forall>c \<in> set b. isdigit c \<or> c = CHR ''_'')
      \<and> successively (\<lambda>x y. x \<noteq> CHR ''_'' \<or> y \<noteq> CHR ''_'') b)"

definition unsigned_part :: "string \<Rightarrow> string" where
  "unsigned_part s = (if take 1 s = ''+'' \<or> take 1 s = ''-'' then drop 1 s else s)"

definition numeric :: "string \<Rightarrow> bool" where
  "numeric t = digit_groups (unsigned_part (int_trim t))"

definition int_value :: "string \<Rightarrow> int" where
  "int_value t =
     (if take 1 (int_trim t) = ''-'' then - decimal_value (filter isdigit (int_trim t))
      else decimal_value (filter isdigit (int_trim t)))"

text \<open>A quiz of three questions, and an attempt at it.\<close>

definition rivers_quiz :: quiz where
  "rivers_quiz =
     \<lparr>quiz_id = JInt 8, title = ''Rivers'', description = None,
      questions = [\<lparr>question_text = ''River of Paris?'',
                     options = [''Seine'', ''Loire''], correct_answer = ''Seine''\<rparr>,
                   \<lparr>question_text = ''River of Rome?'',
                     options = [''Po'', ''Tiber''], correct_answer = ''Tiber''\<rparr>,
                   \<lparr>question_text = ''River of Vienna?'',
                     options = [''Danube'', ''Elbe''], correct_answer = ''Danube''\<rparr>]\<rparr>"

definition rivers_attempt :: world where
  "rivers_attempt =
     world_of (start_quiz 7 ''quiz_8'' \<lparr>status = 200, body = rivers_quiz\<rparr> student_world)"

section \<open>Properties\<close>

lemmas handler_defs = the_session_def item_def attempt_def json_of_def emit_def set_state_def
  finish_def show_teacher_menu_def show_student_menu_def world_of_def raised_def

lemmas review_defs = card_callback_def skip_card_handler_def knew_it_handler_def
  still_learning_handler_def grade_handler_def advance_index_def show_current_flashcard_def
  learn_new_flashcards_handler_def logged_in_def in_session_def cursor_def

lemmas wizard_defs = upload_audio_handler_def process_subject_selection_def
  process_audio_def process_title_def process_description_def process_content_type_def
  logged_in_def

subsection \<open>Lists, documents and text\<close>

lemma index_in_range:
  "0 \<le> i \<Longrightarrow> i < int (length xs) \<Longrightarrow> index xs i = Inr (xs ! nat i)"
  by (simp add: index_def)

lemma map_of_rev_missing:
  "k \<notin> fst ` set kvs \<Longrightarrow> map_of (rev kvs) k = None"
  by (simp add: map_of_eq_None_iff)

lemma option_payload:
  "index (split_once CHR ''_''
     (CHR ''o'' # CHR ''p'' # CHR ''t'' # CHR ''i'' # CHR ''o'' # CHR ''n'' # CHR ''_'' # ch)) 1
   = Inr ch"
  by (simp add: split_once_def index_def)

lemma scores_append: "scores (xs @ ys) = scores xs @ scores ys"
  by (simp add: scores_def)

lemma completions_append: "completions (xs @ ys) = completions xs + completions ys"
  by (simp add: completions_def)

subsection \<open>What \<open>int\<close> accepts\<close>

text \<open>
  The parser agrees with the description of a numeric text: it returns the value of the
  text when the text is numeric and raises otherwise.
\<close>

lemma digit_not_underscore: "isdigit c \<Longrightarrow> c \<noteq> CHR ''_''"
  by (auto simp: isdigit_def)

lemma digit_not_sign: "isdigit c \<Longrightarrow> c \<noteq> CHR ''+'' \<and> c \<noteq> CHR ''-''"
  by (auto simp: isdigit_def)

lemma parse_digits_spec:
  "parse_digits acc ds =
     (if (ds = [] \<or> isdigit (last ds)) \<and> (\<forall>c \<in> set ds. isdigit c \<or> c = CHR ''_'')
         \<and> successively (\<lambda>x y. x \<noteq> CHR ''_'' \<or> y \<noteq> CHR ''_'') ds
      then Some (foldl (\<lambda>a c. a * 10 + digit_value c) acc (filter isdigit ds)) else None)"
proof (induction acc ds rule: parse_digits.induct)
  case (1 acc)
  then show ?case by simp
next
  case (2 acc c)
  then show ?case by (auto dest: digit_not_underscore)
next
  case (3 acc c d ds)
  show ?case
  proof (cases "isdigit c")
    case True
    then show ?thesis
      using 3(1) by (auto dest: digit_not_underscore)
  next
    case False
    show ?thesis
    proof (cases "c = CHR ''_'' \<and> isdigit d")
      case True
      then have d: "d \<noteq> CHR ''_''" by (auto dest: digit_not_underscore)
      have "successively (\<lambda>x y. x \<noteq> CHR ''_'' \<or> y \<noteq> CHR ''_'') (d # ds)
            = successively (\<lambda>x y. x \<noteq> CHR ''_'' \<or> y \<noteq> CHR ''_'') ds"
        using d by (cases ds) auto
      then show ?thesis
        using 3(2) False True d by (auto dest: digit_not_underscore)
    next
      case nd: False
      then show ?thesis
        using False by auto
    qed
  qed
qed

lemma parse_unsigned_spec:
  "parse_unsigned s =
     (if digit_groups s then Some (decimal_value (filter isdigit s)) else None)"
proof (cases s)
  case Nil
  then show ?thesis by (simp add: parse_unsigned_def digit_groups_def)
next
  case (Cons c cs)
  show ?thesis
  proof (cases "isdigit c")
    case True
    then have c: "c \<noteq> CHR ''_''" by (auto dest: digit_not_underscore)
    have "successively (\<lambda>x y. x \<noteq> CHR ''_'' \<or> y \<noteq> CHR ''_'') (c # cs)
          = successively (\<lambda>x y. x \<noteq> CHR ''_'' \<or> y \<noteq> CHR ''_'') cs"
      using c by (cases cs) auto
    then show ?thesis
      using Cons True
      by (auto simp: parse_unsigned_def digit_groups_def decimal_value_def parse_digits_spec)
  next
    case False
    then show ?thesis
      using Cons by (simp add: parse_unsigned_def digit_groups_def)
  qed
qed

lemma py_int_spec:
  "py_int t = (if numeric t then Some (int_value t) else None)"
proof (cases "int_trim t")
  case Nil
  then show ?thesis
    by (simp add: py_int_def numeric_def unsigned_part_def digit_groups_def)
next
  case (Cons c cs)
  have nd: "\<not> isdigit CHR ''+''" "\<not> isdigit CHR ''-''"
    by (simp_all add: isdigit_def)
  show ?thesis
    using Cons nd
    by (auto simp: py_int_def numeric_def unsigned_part_def int_value_def parse_unsigned_spec)
qed

lemma set_int_trim: "set (int_trim s) \<subseteq> set s"
  by (auto simp: int_trim_def dest!: set_dropWhileD)

lemma not_numeric_no_digit:
  assumes "\<forall>c \<in> set t. \<not> isdigit c"
  shows "\<not> numeric t"
proof
  assume "numeric t"
  then have b: "unsigned_part (int_trim t) \<noteq> []" "isdigit (hd (unsigned_part (int_trim t)))"
    by (simp_all add: numeric_def digit_groups_def)
  then have "hd (unsigned_part (int_trim t)) \<in> set (unsigned_part (int_trim t))"
    by simp
  moreover have "set (unsigned_part (int_trim t)) \<subseteq> set (int_trim t)"
    by (auto simp: unsigned_part_def dest: in_set_dropD)
  ultimately have "hd (unsigned_part (int_trim t)) \<in> set t"
    using set_int_trim [of t] by blast
  with assms b(2) show False by blast
qed

lemma digit_not_int_space: "isdigit c \<Longrightarrow> \<not> int_space c"
  by (auto simp: isdigit_def int_space_def Let_def)

lemma int_trim_digits:
  assumes "\<forall>c \<in> set s. isdigit c"
  shows "int_trim s = s"
proof -
  have "dropWhile int_space xs = xs" if "\<forall>c \<in> set xs. isdigit c" for xs
    using that by (cases xs) (auto dest: digit_not_int_space)
  from this [of s] this [of "rev s"] assms show ?thesis
    by (simp add: int_trim_def)
qed

lemma numeric_digits:
  assumes "t \<noteq> []" and "\<forall>c \<in> set t. isdigit c"
  shows "numeric t \<and> int_value t = decimal_value t"
proof -
  obtain c cs where t: "t = c # cs"
    using assms(1) by (cases t) auto
  have c: "isdigit c" using assms(2) t by simp
  have sign: "c \<noteq> CHR ''+''" "c \<noteq> CHR ''-''"
    using digit_not_sign [OF c] by simp_all
  have u: "unsigned_part t = t"
    using t sign by (simp add: unsigned_part_def)
  have succ: "successively (\<lambda>x y. x \<noteq> CHR ''_'' \<or> y \<noteq> CHR ''_'') xs"
    if "\<forall>c \<in> set xs. isdigit c" for xs
    using that by (induction xs rule: induct_list012) (auto dest: digit_not_underscore)
  have f: "filter isdigit t = t"
    using assms(2) by (simp add: filter_id_conv)
  have "digit_groups t"
    using assms succ [OF assms(2)] t by (auto simp: digit_groups_def)
  then show ?thesis
    using int_trim_digits [OF assms(2)] u f t sign
    by (simp add: numeric_def int_value_def)
qed

subsection \<open>Rounding to a double\<close>

text \<open>
  A value between 0 and an integer below 2 to the power 53 is rounded to a value in the
  same range; so the percentage of a counter between 0 and the number of questions
  neither raises nor overflows.
\<close>

lemma round_half_even_le:
  assumes "x \<le> of_int j"
  shows "round_half_even x \<le> j"
proof (cases "x = of_int j")
  case True
  then show ?thesis by (simp add: round_half_even_def)
next
  case False
  with assms have "x < of_int j" by simp
  then have "\<lfloor>x\<rfloor> < j" by (simp add: floor_less_iff)
  then show ?thesis by (simp add: round_half_even_def Let_def)
qed

lemma round_half_even_nonneg: "0 \<le> x \<Longrightarrow> 0 \<le> round_half_even x"
  by (simp add: round_half_even_def Let_def)

lemma binade_lower:
  assumes "0 < x"
  shows "2 powi (binade x) \<le> x"
proof -
  obtain p q where pq: "quotient_of x = (p, q)" by (cases "quotient_of x")
  then have q: "0 < q" and x: "x = of_int p / of_int q"
    by (auto dest: quotient_of_denom_pos quotient_of_div)
  with assms have p: "0 < p"
    by (simp add: zero_less_divide_iff)
  let ?e0 = "bitlen p - bitlen q"
  have bp: "2 ^ nat (bitlen p - 1) \<le> p" and bq: "q < 2 ^ nat (bitlen q)"
    using bitlen_bounds [OF p] bitlen_bounds [OF q] by auto
  have p1: "1 \<le> bitlen p"
    using p bitlen_eq_zero_iff [of p] bitlen_nonneg [of p] by linarith
  have "(2::rat) powi (bitlen p - 1) = 2 ^ nat (bitlen p - 1)"
    using p1 by (simp add: power_int_def)
  also have "\<dots> = of_int (2 ^ nat (bitlen p - 1))"
    by simp
  also have "\<dots> \<le> of_int p"
    using bp by (simp only: of_int_le_iff)
  finally have lo: "(2::rat) powi (bitlen p - 1) \<le> of_int p" .
  have "(of_int q :: rat) \<le> of_int (2 ^ nat (bitlen q))"
    using bq by (simp only: of_int_le_iff)
  also have "\<dots> = 2 ^ nat (bitlen q)"
    by simp
  also have "\<dots> = 2 powi (bitlen q)"
    using bitlen_nonneg [of q] by (simp add: power_int_def)
  finally have hi: "(of_int q :: rat) \<le> 2 powi (bitlen q)" .
  have "(2::rat) powi (?e0 - 1) = 2 powi (bitlen p - 1) / 2 powi (bitlen q)"
    by (simp add: power_int_diff)
  also have "\<dots> \<le> of_int p / of_int q"
    using lo hi q p by (intro frac_le) auto
  finally have "(2::rat) powi (?e0 - 1) \<le> x"
    using x by simp
  then show ?thesis
    using pq by (simp add: binade_def Let_def)
qed

lemma nearest_double_bounds:
  assumes "0 \<le> x" and "x \<le> of_int k" and "k < 2 ^ 53"
  shows "0 \<le> nearest_double x \<and> nearest_double x \<le> of_int k"
proof (cases "x = 0")
  case True
  then show ?thesis using assms by (simp add: nearest_double_def)
next
  case False
  with assms have pos: "0 < x" by simp
  define u where "u = max (binade x - 52) (- 1074)"
  have "2 powi (binade x) \<le> x"
    by (rule binade_lower [OF pos])
  also have "x \<le> of_int k"
    by (rule assms(2))
  also have "(of_int k :: rat) < of_int (2 ^ 53)"
    using assms(3) by (simp only: of_int_less_iff)
  also have "(of_int (2 ^ 53) :: rat) = 2 powi 53"
    by simp
  finally have lt: "(2::rat) powi (binade x) < 2 powi 53" .
  have "binade x < 53"
  proof (rule ccontr)
    assume "\<not> binade x < 53"
    then have "53 \<le> binade x" by simp
    then have "(2::rat) powi 53 \<le> 2 powi (binade x)"
      by (rule power_int_increasing) simp
    with lt show False by simp
  qed
  then have u: "u \<le> 0"
    by (simp add: u_def)
  define N :: int where "N = 2 ^ nat (- u)"
  have N: "(2::rat) powi u = 1 / of_int N" "0 < N"
    using u by (simp_all add: N_def power_int_def field_simps)
  have "x / 2 powi u = x * of_int N"
    by (simp add: N)
  also have "\<dots> \<le> of_int k * of_int N"
    using assms(2) N(2) by (simp add: mult_right_mono)
  finally have "x / 2 powi u \<le> of_int (k * N)" by simp
  then have m: "round_half_even (x / 2 powi u) \<le> k * N"
    by (rule round_half_even_le)
  have m0: "0 \<le> round_half_even (x / 2 powi u)"
    using pos by (intro round_half_even_nonneg) simp
  have nd: "nearest_double x = of_int (round_half_even (x / 2 powi u)) / of_int N"
    using pos False by (simp add: nearest_double_def u_def [symmetric] N)
  have "nearest_double x \<le> of_int (k * N) / of_int N"
    unfolding nd using m N(2) by (intro divide_right_mono) (simp_all add: of_int_le_iff [symmetric] del: of_int_le_iff of_int_mult)
  then have "nearest_double x \<le> of_int k"
    using N(2) by simp
  moreover have "0 \<le> nearest_double x"
    unfolding nd using m0 N(2) by simp
  ultimately show ?thesis by simp
qed

lemma percentage_in_range:
  assumes "0 \<le> c" and "c \<le> m" and "0 < m"
  shows "percentage c m =
           Inr (Finite (nearest_double (nearest_double (of_int c / of_int m) * 100)))"
proof -
  let ?q = "nearest_double (of_int c / of_int m)"
  have "(of_int c / of_int m :: rat) \<le> of_int 1" "(0::rat) \<le> of_int c / of_int m"
    using assms by (simp_all add: divide_le_eq_1)
  then have q: "0 \<le> ?q" "?q \<le> 1"
    using nearest_double_bounds [of "of_int c / of_int m" 1] by simp_all
  then have div: "int_true_divide c m = Inr ?q"
    using assms(3) by (simp add: int_true_divide_def Let_def abs_if)
  have "0 \<le> ?q * 100" "?q * 100 \<le> of_int 100"
    using q by simp_all
  then have r: "0 \<le> nearest_double (?q * 100)" "nearest_double (?q * 100) \<le> 100"
    using nearest_double_bounds [of "?q * 100" 100] by simp_all
  then have "float_times ?q 100 = Finite (nearest_double (?q * 100))"
    by (simp add: float_times_def Let_def)
  then show ?thesis
    using div by (simp add: percentage_def)
qed

lemma nearest_double_1: "nearest_double 1 = 1"
  by code_simp

lemma nearest_double_100: "nearest_double 100 = 100"
  by code_simp

lemma percentage_full: "0 < m \<Longrightarrow> percentage m m = Inr (Finite 100)"
  using percentage_in_range [of m m] by (simp add: nearest_double_1 nearest_double_100)

lemma nearest_double_two_thirds:
  "nearest_double (nearest_double (2 / 3) * 100) = 2345624805922133 / 35184372088832"
  by code_simp

lemma nearest_double_200_thirds:
  "nearest_double (100 * 2 / 3) = 4691249611844267 / 70368744177664"
  by code_simp

lemma percentage_2_3: "percentage 2 3 = Inr (Finite (2345624805922133 / 35184372088832))"
  using percentage_in_range [of 2 3] by (simp add: nearest_double_two_thirds)

subsection \<open>The example states\<close>

lemma lesson_wizard_state:
  "lesson_wizard\<lparr>outbox := []\<rparr> = wizard_world"
  "outbox lesson_wizard =
     [Backend (Subjects_get (JStr ''tok'')), Send (Select_subject [(JStr ''Biology'', JInt 4)]),
      Answer_callback None, Send Send_audio, Send Downloading, Send Enter_title,
      Send Enter_description, Send Choose_content_type, Answer_callback None, Send How_many]"
  by (simp_all add: lesson_wizard_def wizard_world_def wizard_defs handler_defs
      teacher_world_def teacher_session_def initial_world_def empty_session_def
      empty_draft_def lesson_draft_def index_def Let_def fun_eq_iff)

subsection \<open>Card review\<close>

text \<open>
  One tap on Skip, "I knew it" or "Still learning" while a card is left: the handler
  returns, the cursor is one higher, the state is the same, and the end of the session is
  announced exactly when the cursor has reached the number of cards.
\<close>

lemma card_step:
  assumes "USER_SESSIONS w u = Some s" and "current_flashcards s = Some cards"
    and "current_index s = Some i" and "access_token s = Some tok"
    and "0 \<le> i" and "i < int (length cards)" and "in_session u w" and "grading a"
  shows "\<exists>w'. card_callback u a w = Done w'
           \<and> USER_SESSIONS w' u = Some (s\<lparr>current_index := Some (i + 1)\<rparr>)
           \<and> fsm w' = fsm w
           \<and> completions (outbox w') =
               completions (outbox w) + (if i + 1 = int (length cards) then 1 else 0)"
proof -
  have skip: ?thesis if "a = Skip"
    using assms that
    by (auto simp: card_callback_def skip_card_handler_def advance_index_def
        show_current_flashcard_def the_session_def item_def attempt_def emit_def
        show_student_menu_def index_in_range completions_def)
  have grade: ?thesis if "a = Knew_it \<or> a = Still_learning"
    using assms that
    by (auto simp: card_callback_def knew_it_handler_def still_learning_handler_def
        grade_handler_def advance_index_def
        show_current_flashcard_def the_session_def item_def attempt_def emit_def
        show_student_menu_def index_in_range completions_def Let_def)
  show ?thesis
    using skip grade assms(8) by (auto simp: grading_def)
qed

text \<open>
  While cards are left, every tap counts: after \<open>k\<close> taps from cursor \<open>i\<close>, with
  \<open>i + k\<close> at most the number of cards, the cursor is \<open>i + k\<close>, and the end of the session
  has been announced once if \<open>i + k\<close> is the number of cards and not at all otherwise.
\<close>

lemma review_run:
  assumes "USER_SESSIONS w u = Some s" and "current_flashcards s = Some cards"
    and "current_index s = Some i" and "access_token s = Some tok"
    and "0 \<le> i" and "i + int (length as) \<le> int (length cards)" and "in_session u w"
    and "\<forall>a \<in> set as. grading a"
  shows "cursor u (card_callbacks u as w) = i + int (length as)
       \<and> completions (outbox (card_callbacks u as w)) =
           completions (outbox w)
             + (if as \<noteq> [] \<and> i + int (length as) = int (length cards) then 1 else 0)"
  using assms
proof (induction as arbitrary: w s i)
  case Nil
  then show ?case by (simp add: cursor_def)
next
  case (Cons a as)
  have lt: "i < int (length cards)"
    using Cons.prems(6) by simp
  have g: "grading a"
    using Cons.prems(8) by simp
  from card_step [OF Cons.prems(1-5) lt Cons.prems(7) g]
  obtain w1 where
    run: "card_callback u a w = Done w1"
    and s1: "USER_SESSIONS w1 u = Some (s\<lparr>current_index := Some (i + 1)\<rparr>)"
    and st: "fsm w1 = fsm w"
    and cm: "completions (outbox w1) =
               completions (outbox w) + (if i + 1 = int (length cards) then 1 else 0)"
    by blast
  have step: "card_callbacks u (a # as) w = card_callbacks u as w1"
    using run by (simp add: world_of_def)
  have ins: "in_session u w1"
    using Cons.prems(7) st by (simp add: in_session_def)
  have ih: "cursor u (card_callbacks u as w1) = i + 1 + int (length as)
       \<and> completions (outbox (card_callbacks u as w1)) =
           completions (outbox w1)
             + (if as \<noteq> [] \<and> i + 1 + int (length as) = int (length cards) then 1 else 0)"
    using Cons.IH [OF s1, of "i + 1"] Cons.prems ins by simp
  show ?case
  proof (cases "as = []")
    case True
    then show ?thesis
      using ih cm step by simp
  next
    case False
    then have "i + 1 \<noteq> int (length cards)"
      using Cons.prems(6) by (cases as) auto
    then show ?thesis
      using ih cm step False by (simp add: add.assoc)
  qed
qed

text \<open>Showing a card, or the end of the session, never changes the state.\<close>

lemma show_current_flashcard_keeps_state:
  "fsm (world_of (show_current_flashcard user_id w)) = fsm w"
  by (simp add: show_current_flashcard_def handler_defs
      split: option.splits sum.splits)

text \<open>
  C1: in a review of \<open>N\<close> cards every tap raises the cursor by one and the cursor stays
  within \<open>0..N\<close>. The code does not keep the bound: on a batch of one card, started at
  cursor 0, the first Skip brings the cursor to 1 and ends the session, and a second Skip
  is still served and brings it to 2.
\<close>

theorem skip_after_completion_overruns:
  "cursor 7 one_card_session = 0
   \<and> cursor 7 (card_callbacks 7 [Skip] one_card_session) = 1
   \<and> completions (outbox (card_callbacks 7 [Skip] one_card_session)) = 1
   \<and> cursor 7 (card_callbacks 7 [Skip, Skip] one_card_session) = 2
   \<and> int (length one_card) < cursor 7 (card_callbacks 7 [Skip, Skip] one_card_session)"
  by (simp add: one_card_session_def review_defs handler_defs student_world_def
      student_session_def initial_world_def empty_session_def one_card_def index_def
      completions_def Let_def)

subsection \<open>Quiz\<close>

text \<open>
  One answer while a question is left, with a counter between 0 and the position: the
  handler returns, the position is one higher, the counter is one higher exactly on a
  match, and the result is reported exactly when the position has reached the number of
  questions.
\<close>

lemma answer_step:
  assumes "USER_SESSIONS w u = Some s" and "current_quiz s = Some qz"
    and "current_question s = Some i" and "correct_answers s = Some c"
    and "access_token s = Some tok" and "0 \<le> i" and "i < int (length (questions qz))"
    and "0 \<le> c" and "c \<le> i"
  shows "\<exists>w' s'. quiz_answer_handler u (''option_'' @ ch) w = Done w'
           \<and> USER_SESSIONS w' u = Some s' \<and> current_quiz s' = Some qz
           \<and> current_question s' = Some (i + 1)
           \<and> correct_answers s' =
               Some (c + (if matches ch (correct_answer (questions qz ! nat i)) then 1 else 0))
           \<and> access_token s' = Some tok
           \<and> scores (outbox w') = scores (outbox w) @
               (if i + 1 = int (length (questions qz))
                then [(c + (if matches ch (correct_answer (questions qz ! nat i)) then 1 else 0),
                       int (length (questions qz)),
                       Finite (nearest_double (nearest_double
                         (of_int (c + (if matches ch (correct_answer (questions qz ! nat i))
                                       then 1 else 0))
                            / of_int (int (length (questions qz)))) * 100)))]
                else [])"
proof -
  let ?hit = "(if matches ch (correct_answer (questions qz ! nat i)) then 1 else 0) :: int"
  let ?m = "int (length (questions qz))"
  let ?s' = "s\<lparr>correct_answers := Some (c + ?hit), current_question := Some (i + 1)\<rparr>"
  let ?w1 = "emit Delete_message (emit (Answer_callback None)
               (w\<lparr>USER_SESSIONS := (USER_SESSIONS w)(u \<mapsto> ?s')\<rparr>))"
  have keep: "s\<lparr>correct_answers := Some c\<rparr> = s"
    using assms(4) by simp
  have handler: "quiz_answer_handler u (''option_'' @ ch) w = show_quiz_question u ?w1"
    using assms(1-7)
    by (auto simp: quiz_answer_handler_def next_question_def the_session_def item_def
        attempt_def option_payload index_in_range keep Let_def)
  have pct: "percentage (c + ?hit) ?m =
      Inr (Finite (nearest_double (nearest_double (of_int (c + ?hit) / of_int ?m) * 100)))"
    if "i + 1 = ?m"
    using assms(6-9) that by (intro percentage_in_range) auto
  show ?thesis
  proof (cases "i + 1 = ?m")
    case True
    then show ?thesis
      using assms(1-7) pct [OF True] unfolding handler
      by (simp add: show_quiz_question_def the_session_def item_def attempt_def emit_def
          show_student_menu_def Let_def scores_append scores_def)
  next
    case False
    then have "i + 1 < ?m" using assms(7) by simp
    then show ?thesis
      using assms(1-7) False unfolding handler
      by (simp add: show_quiz_question_def the_session_def item_def attempt_def emit_def
          index_in_range Let_def scores_append scores_def)
  qed
qed

lemma quiz_run:
  assumes "USER_SESSIONS w u = Some s" and "current_quiz s = Some qz"
    and "current_question s = Some i" and "correct_answers s = Some c"
    and "access_token s = Some tok" and "0 \<le> i"
    and "i + int (length cs) \<le> int (length (questions qz))"
    and "0 \<le> c" and "c \<le> i"
  shows "\<exists>s'. USER_SESSIONS (quiz_answers u cs w) u = Some s' \<and> current_quiz s' = Some qz
           \<and> current_question s' = Some (i + int (length cs))
           \<and> correct_answers s' = Some (c + count_correct cs (drop (nat i) (questions qz)))
           \<and> access_token s' = Some tok
           \<and> scores (outbox (quiz_answers u cs w)) = scores (outbox w) @
               (if cs \<noteq> [] \<and> i + int (length cs) = int (length (questions qz))
                then [(c + count_correct cs (drop (nat i) (questions qz)),
                       int (length (questions qz)),
                       Finite (nearest_double (nearest_double
                         (of_int (c + count_correct cs (drop (nat i) (questions qz)))
                            / of_int (int (length (questions qz)))) * 100)))]
                else [])"
  using assms
proof (induction cs arbitrary: w s i c)
  case Nil
  then show ?case by simp
next
  case (Cons ch cs)
  let ?hit = "(if matches ch (correct_answer (questions qz ! nat i)) then 1 else 0) :: int"
  have lt: "i < int (length (questions qz))"
    using Cons.prems(7) by simp
  from answer_step [OF Cons.prems(1-6) lt Cons.prems(8,9), of ch]
  obtain w1 s1 where
    run: "quiz_answer_handler u (''option_'' @ ch) w = Done w1"
    and s1: "USER_SESSIONS w1 u = Some s1" "current_quiz s1 = Some qz"
      "current_question s1 = Some (i + 1)" "correct_answers s1 = Some (c + ?hit)"
      "access_token s1 = Some tok"
    and sc: "scores (outbox w1) = scores (outbox w) @
               (if i + 1 = int (length (questions qz))
                then [(c + ?hit, int (length (questions qz)),
                       Finite (nearest_double (nearest_double
                         (of_int (c + ?hit) / of_int (int (length (questions qz)))) * 100)))]
                else [])"
    by blast
  have step: "quiz_answers u (ch # cs) w = quiz_answers u cs w1"
    using run by (simp add: world_of_def)
  have bound: "(i + 1) + int (length cs) \<le> int (length (questions qz))"
    using Cons.prems(7) by simp
  have nonneg: "0 \<le> i + 1"
    using Cons.prems(6) by simp
  have c1: "0 \<le> c + ?hit" "c + ?hit \<le> i + 1"
    using Cons.prems(8,9) by simp_all
  from Cons.IH [OF s1 nonneg bound c1]
  obtain s2 where
    s2: "USER_SESSIONS (quiz_answers u cs w1) u = Some s2" "current_quiz s2 = Some qz"
      "current_question s2 = Some (i + 1 + int (length cs))"
      "correct_answers s2 =
         Some (c + ?hit + count_correct cs (drop (nat (i + 1)) (questions qz)))"
      "access_token s2 = Some tok"
    and sc2: "scores (outbox (quiz_answers u cs w1)) = scores (outbox w1) @
               (if cs \<noteq> [] \<and> i + 1 + int (length cs) = int (length (questions qz))
                then [(c + ?hit + count_correct cs (drop (nat (i + 1)) (questions qz)),
                       int (length (questions qz)),
                       Finite (nearest_double (nearest_double
                         (of_int (c + ?hit + count_correct cs (drop (nat (i + 1)) (questions qz)))
                            / of_int (int (length (questions qz)))) * 100)))]
                else [])"
    by blast
  have dr: "drop (nat i) (questions qz) = (questions qz ! nat i) # drop (nat (i + 1)) (questions qz)"
    using Cons.prems(6) lt by (simp add: Cons_nth_drop_Suc nat_add_distrib)
  have cnt: "count_correct (ch # cs) (drop (nat i) (questions qz)) =
               ?hit + count_correct cs (drop (nat (i + 1)) (questions qz))"
    by (simp add: dr matches_def)
  show ?case
  proof (cases "cs = []")
    case True
    then show ?thesis
      using s1 sc step cnt by simp
  next
    case False
    then have "i + 1 \<noteq> int (length (questions qz))"
      using bound by (cases cs) auto
    then show ?thesis
      using s2 sc sc2 step cnt False by (simp add: add.assoc)
  qed
qed

lemma count_correct_all:
  assumes "length cs = length qs"
    and "\<forall>k < length cs. lower (strip (cs ! k)) = lower (strip (correct_answer (qs ! k)))"
  shows "count_correct cs qs = int (length qs)"
  using assms
proof (induction cs qs rule: list_induct2)
  case Nil
  then show ?case by simp
next
  case (Cons c cs q qs)
  from Cons.prems have "lower (strip c) = lower (strip (correct_answer q))"
    by (auto dest: spec [of _ 0])
  moreover from Cons.prems
  have "\<forall>k < length cs. lower (strip (cs ! k)) = lower (strip (correct_answer (qs ! k)))"
    by (auto dest: spec [of _ "Suc k" for k])
  ultimately show ?case
    using Cons.IH by simp
qed

text \<open>
  C2, as stated, fails: with two of three answers right, the percentage reported and
  posted is the double 66.66666666666666, which is neither \<open>100 * 2 / 3\<close> nor the
  double nearest to it, 66.66666666666667.
\<close>

theorem two_of_three_percentage:
  "scores (outbox (quiz_answers 7 [''Seine'', ''Po'', ''danube ''] rivers_attempt)) =
     [(2, 3, Finite (2345624805922133 / 35184372088832))]
   \<and> (2345624805922133 / 35184372088832 :: rat) \<noteq> 100 * 2 / 3
   \<and> nearest_double (100 * 2 / 3) \<noteq> 2345624805922133 / 35184372088832"
proof -
  have start: "USER_SESSIONS rivers_attempt 7 =
      Some (student_session\<lparr>current_quiz := Some rivers_quiz, current_question := Some 0,
              correct_answers := Some 0\<rparr>)"
    "scores (outbox rivers_attempt) = []"
    by (simp_all add: rivers_attempt_def start_quiz_def show_quiz_question_def handler_defs
        initial_world_def student_world_def student_session_def empty_session_def
        rivers_quiz_def index_def scores_def Let_def)
  have cnt: "count_correct [''Seine'', ''Po'', ''danube ''] (questions rivers_quiz) = 2"
    by code_simp
  have len: "int (length (questions rivers_quiz)) = 3"
    by (simp add: rivers_quiz_def)
  from quiz_run [OF start(1), of rivers_quiz 0 0 "JStr ''tok''" "[''Seine'', ''Po'', ''danube '']"]
  have "scores (outbox (quiz_answers 7 [''Seine'', ''Po'', ''danube ''] rivers_attempt)) =
     [(2, 3, Finite (nearest_double (nearest_double (2 / 3) * 100)))]"
    using start(2) cnt len by (auto simp: student_session_def)
  then have reported:
    "scores (outbox (quiz_answers 7 [''Seine'', ''Po'', ''danube ''] rivers_attempt)) =
       [(2, 3, Finite (2345624805922133 / 35184372088832))]"
    by (simp only: nearest_double_two_thirds)
  have exact: "(2345624805922133 / 35184372088832 :: rat) \<noteq> 100 * 2 / 3"
    by simp
  have rounded: "nearest_double (100 * 2 / 3) \<noteq> 2345624805922133 / 35184372088832"
    unfolding nearest_double_200_thirds by simp
  show ?thesis
    using reported exact rounded by (intro conjI)
qed

text \<open>
  C2, amended: in a quiz of one or more questions taken from the start, with one choice
  for each question, the position after \<open>k\<close> answers is \<open>k\<close> and the counter is the
  number of the first \<open>k\<close> choices that equal the expected answer once both are trimmed
  and lower-cased; after the last answer one result is reported, with the percentage
  computed in double precision as the rounded quotient \<open>correct / M\<close> times 100, rounded
  again; it is exactly 100 when every choice matches in that sense.
\<close>

theorem quiz_attempt_graded:
  assumes "USER_SESSIONS w user_id = Some s" and "current_quiz s = Some qz"
    and "current_question s = Some 0" and "correct_answers s = Some 0"
    and "access_token s = Some tok" and "questions qz \<noteq> []"
    and "length choices = length (questions qz)"
  shows "(\<forall>k \<le> length choices. \<exists>s'.
            USER_SESSIONS (quiz_answers user_id (take k choices) w) user_id = Some s'
            \<and> current_question s' = Some (int k)
            \<and> correct_answers s' = Some (count_correct (take k choices) (questions qz)))
       \<and> scores (outbox (quiz_answers user_id choices w)) = scores (outbox w) @
            [(count_correct choices (questions qz), int (length (questions qz)),
              Finite (nearest_double (nearest_double
                (of_int (count_correct choices (questions qz))
                   / of_int (int (length (questions qz)))) * 100)))]
       \<and> ((\<forall>k < length choices.
              lower (strip (choices ! k)) = lower (strip (correct_answer (questions qz ! k))))
            \<longrightarrow> scores (outbox (quiz_answers user_id choices w)) = scores (outbox w) @
                  [(int (length (questions qz)), int (length (questions qz)), Finite 100)])"
proof -
  have prefix: "\<exists>s'. USER_SESSIONS (quiz_answers user_id (take k choices) w) user_id = Some s'
            \<and> current_question s' = Some (int k)
            \<and> correct_answers s' = Some (count_correct (take k choices) (questions qz))"
    if "k \<le> length choices" for k
    using quiz_run [OF assms(1-5), of "take k choices"] that assms(7) by auto
  have ne: "choices \<noteq> []"
    using assms(6,7) by auto
  have whole: "scores (outbox (quiz_answers user_id choices w)) = scores (outbox w) @
            [(count_correct choices (questions qz), int (length (questions qz)),
              Finite (nearest_double (nearest_double
                (of_int (count_correct choices (questions qz))
                   / of_int (int (length (questions qz)))) * 100)))]"
    using quiz_run [OF assms(1-5), of choices] ne assms(7) by auto
  have full: "scores (outbox (quiz_answers user_id choices w)) = scores (outbox w) @
                  [(int (length (questions qz)), int (length (questions qz)), Finite 100)]"
    if "\<forall>k < length choices.
          lower (strip (choices ! k)) = lower (strip (correct_answer (questions qz ! k)))"
    using whole count_correct_all [OF assms(7) that] assms(6)
    by (simp add: nearest_double_1 nearest_double_100)
  show ?thesis
    using prefix whole full by blast
qed

theorem quiz_attempt_graded_witness:
  "lower (strip '' paris '') = lower (strip ''Paris'')
   \<and> scores (outbox (quiz_answers 7 ['' paris ''] capital_attempt)) = [(1, 1, Finite 100)]
   \<and> (\<exists>s'. USER_SESSIONS (quiz_answers 7 ['' paris ''] capital_attempt) 7 = Some s'
         \<and> current_question s' = Some 1 \<and> correct_answers s' = Some 1)"
proof -
  have start: "USER_SESSIONS capital_attempt 7 =
      Some (student_session\<lparr>current_quiz := Some capital_quiz, current_question := Some 0,
              correct_answers := Some 0\<rparr>)"
    "scores (outbox capital_attempt) = []"
    by (simp_all add: capital_attempt_def start_quiz_def show_quiz_question_def handler_defs
        initial_world_def student_world_def student_session_def empty_session_def
        capital_quiz_def index_def scores_def Let_def)
  have same: "lower (strip '' paris '') = lower (strip ''Paris'')"
    by code_simp
  have hyps: "current_quiz (student_session\<lparr>current_quiz := Some capital_quiz,
                 current_question := Some 0, correct_answers := Some 0\<rparr>) = Some capital_quiz"
    "current_question (student_session\<lparr>current_quiz := Some capital_quiz,
                 current_question := Some 0, correct_answers := Some 0\<rparr>) = Some 0"
    "correct_answers (student_session\<lparr>current_quiz := Some capital_quiz,
                 current_question := Some 0, correct_answers := Some 0\<rparr>) = Some 0"
    "access_token (student_session\<lparr>current_quiz := Some capital_quiz,
                 current_question := Some 0, correct_answers := Some 0\<rparr>) = Some (JStr ''tok'')"
    "questions capital_quiz \<noteq> []"
    "length ['' paris ''] = length (questions capital_quiz)"
    by (simp_all add: student_session_def capital_quiz_def)
  note graded = quiz_attempt_graded [OF start(1) hyps]
  have all_hit: "\<forall>k < length ['' paris ''].
      lower (strip (['' paris ''] ! k)) = lower (strip (correct_answer (questions capital_quiz ! k)))"
    using same by (simp add: capital_quiz_def)
  have cnt: "count_correct ['' paris ''] (questions capital_quiz) = 1"
    using same by (simp add: capital_quiz_def)
  from graded [THEN conjunct1]
  have "\<exists>s'. USER_SESSIONS (quiz_answers 7 (take 1 ['' paris '']) capital_attempt) 7 = Some s'
            \<and> current_question s' = Some (int 1)
            \<and> correct_answers s' = Some (count_correct (take 1 ['' paris ''])
                 (questions capital_quiz))"
    by (metis One_nat_def length_Cons list.size(3) order_refl)
  then have ex: "\<exists>s'. USER_SESSIONS (quiz_answers 7 ['' paris ''] capital_attempt) 7 = Some s'
         \<and> current_question s' = Some 1 \<and> correct_answers s' = Some 1"
    using cnt by simp
  from graded [THEN conjunct2, THEN conjunct2, THEN mp, OF all_hit]
  have "scores (outbox (quiz_answers 7 ['' paris ''] capital_attempt)) = [(1, 1, Finite 100)]"
    using start(2) by (simp add: capital_quiz_def)
  then show ?thesis
    using same ex by blast
qed

text \<open>
  C4: a quiz without questions is to be refused when it is selected. The code accepts it:
  selecting the empty quiz stores it in the session, announces it, and the handler then
  raises ZeroDivisionError while computing the percentage.
\<close>

theorem start_quiz_empty_quiz_raises:
  "raised (start_quiz 7 ''quiz_5'' \<lparr>status = 200, body = empty_quiz\<rparr> student_world) =
     Some ZeroDivisionError
   \<and> USER_SESSIONS (world_of (start_quiz 7 ''quiz_5'' \<lparr>status = 200, body = empty_quiz\<rparr>
        student_world)) 7 =
     Some (student_session\<lparr>current_quiz := Some empty_quiz, current_question := Some 0,
             correct_answers := Some 0\<rparr>)
   \<and> outbox (world_of (start_quiz 7 ''quiz_5'' \<lparr>status = 200, body = empty_quiz\<rparr>
        student_world)) =
     [Backend (Quiz_get (JStr ''tok'') ''5''), Answer_callback None, Delete_message,
      Send (Starting_quiz ''Warm-up'' [])]"
  by (simp add: start_quiz_def show_quiz_question_def percentage_def int_true_divide_def
      handler_defs initial_world_def
      student_world_def student_session_def empty_session_def empty_quiz_def index_def Let_def)

text \<open>
  C9: a handler that calls the backend with the token first checks that the session and
  the token exist. \<open>start_quiz\<close> does not: for a user without a session it raises KeyError
  on the session lookup, and run on a session that holds no token it raises KeyError on
  the token, where \<open>take_quiz_handler\<close> answers with the login prompt.
\<close>

theorem start_quiz_without_check:
  "start_quiz 7 ''quiz_6'' \<lparr>status = 200, body = capital_quiz\<rparr> initial_world =
     Raised (KeyError (User_id 7)) initial_world
   \<and> start_quiz 7 ''quiz_6'' \<lparr>status = 200, body = capital_quiz\<rparr>
       (world_of (login_handler 7 ''Login as Student'' student_world)) =
     Raised (KeyError (Field ''access_token''))
       (world_of (login_handler 7 ''Login as Student'' student_world))
   \<and> take_quiz_handler 7 \<lparr>status = 200, body = []\<rparr> initial_world =
     Done (initial_world\<lparr>outbox := [Send Login_first]\<rparr>)"
  by (simp add: start_quiz_def take_quiz_handler_def logged_in_def login_handler_def
      handler_defs initial_world_def student_world_def empty_session_def index_def Let_def)

subsection \<open>Card review: the end of a session\<close>

text \<open>
  C6: when the cursor reaches the number of cards, the end of the session is announced,
  the student menu is shown and the state of the session is cleared. The code does the
  first two and leaves the state: after the only card is skipped, the state is still
  \<open>in_learning_session\<close> and the card buttons are still served.
\<close>

theorem completion_keeps_session_state:
  "outbox (card_callbacks 7 [Skip] one_card_session) =
     [Send Loading_new, Backend (New_cards_get (JStr ''tok'')),
      Send (Show_card 1 1 ''cell division''), Answer_callback None, Delete_message,
      Send Session_complete, Send Student_menu]
   \<and> fsm (card_callbacks 7 [Skip] one_card_session) 7 = Some StudentStates_in_learning_session
   \<and> in_session 7 (card_callbacks 7 [Skip] one_card_session)"
  by (simp add: one_card_session_def review_defs handler_defs student_world_def
      student_session_def initial_world_def empty_session_def one_card_def index_def Let_def)

subsection \<open>Teacher upload wizard\<close>

text \<open>
  C3: when the upload is refused, no generation call is made and the temporary audio file
  is deleted. The code makes no generation call, and it leaves the file: the wizard that
  saved the audio as \<open>/tmp/tmpk3.ogg\<close> ends, on an upload answered with status 500, with
  the failure text and with the file still on disk.
\<close>

theorem upload_failure_keeps_temp_file:
  "''/tmp/tmpk3.ogg'' \<notin> files teacher_world
   \<and> process_count_and_upload 3 ''5''
       \<lparr>status = 500, body = Some (JObj [(''error'', JStr ''disk full'')])\<rparr>
       \<lparr>status = 201, body = Some (JObj [])\<rparr> lesson_wizard =
     Done (lesson_wizard\<lparr>outbox := outbox lesson_wizard @ [Send Uploading,
             Backend (Upload_post (JStr ''tok'') ''/tmp/tmpk3.ogg'' ''Cells'' ''Week 2'' ''4''),
             Send (Upload_failed (JStr ''disk full''))]\<rparr>)
   \<and> ''/tmp/tmpk3.ogg'' \<in> files (world_of (process_count_and_upload 3 ''5''
       \<lparr>status = 500, body = Some (JObj [(''error'', JStr ''disk full'')])\<rparr>
       \<lparr>status = 201, body = Some (JObj [])\<rparr> lesson_wizard))"
  by (simp add: process_count_and_upload_def error_text_def lesson_wizard_def wizard_defs
      handler_defs teacher_world_def teacher_session_def initial_world_def empty_session_def
      empty_draft_def index_def Let_def)

text \<open>
  C7: a text that \<open>int\<close> accepts gives its value as the count, and every other text,
  whether it holds digits or not, gives 10; in particular a text without any digit gives
  10 and a text of decimal digits gives their value. Whatever the text is, a complete
  draft is submitted: the upload call is made, and when the upload succeeds the
  generation call carries the count.
\<close>

theorem count_parsed_or_ten:
  assumes "subject_id (fsm_data w user_id) = Some sid"
    and "audio_file_path (fsm_data w user_id) = Some path"
    and "draft_title (fsm_data w user_id) = Some ttl"
    and "draft_description (fsm_data w user_id) = Some descr"
    and "content_type (fsm_data w user_id) = Some ctype"
    and "USER_SESSIONS w user_id = Some s" and "access_token s = Some tok"
    and "path \<in> files w"
  shows "(numeric t \<longrightarrow> parse_count t = int_value t)
       \<and> (\<not> numeric t \<longrightarrow> parse_count t = 10)
       \<and> ((\<forall>c \<in> set t. \<not> isdigit c) \<longrightarrow> parse_count t = 10)
       \<and> (t \<noteq> [] \<and> (\<forall>c \<in> set t. isdigit c) \<longrightarrow> parse_count t = decimal_value t)
       \<and> Backend (Upload_post tok path ttl descr sid)
            \<in> set (outbox (world_of (process_count_and_upload user_id t response gen_response w)))
       \<and> (status response = 201 \<and> body response = Some d \<and> getitem d ''id'' = Inr aid \<longrightarrow>
            Backend (Generate_post tok ctype aid (parse_count t) sid)
              \<in> set (outbox (world_of
                    (process_count_and_upload user_id t response gen_response w))))"
proof -
  have "numeric t \<longrightarrow> parse_count t = int_value t"
    by (simp add: parse_count_def py_int_spec)
  moreover have "\<not> numeric t \<longrightarrow> parse_count t = 10"
    by (simp add: parse_count_def py_int_spec)
  moreover have "(\<forall>c \<in> set t. \<not> isdigit c) \<longrightarrow> parse_count t = 10"
    using not_numeric_no_digit [of t] by (simp add: parse_count_def py_int_spec)
  moreover have "t \<noteq> [] \<and> (\<forall>c \<in> set t. isdigit c) \<longrightarrow> parse_count t = decimal_value t"
    using numeric_digits [of t] by (simp add: parse_count_def py_int_spec)
  moreover have "Backend (Upload_post tok path ttl descr sid)
            \<in> set (outbox (world_of (process_count_and_upload user_id t response gen_response w)))"
    using assms
    by (simp add: process_count_and_upload_def the_session_def item_def attempt_def emit_def
        finish_def show_teacher_menu_def world_of_def Let_def split: sum.splits)
  moreover have "status response = 201 \<and> body response = Some d \<and> getitem d ''id'' = Inr aid \<longrightarrow>
            Backend (Generate_post tok ctype aid (parse_count t) sid)
              \<in> set (outbox (world_of
                    (process_count_and_upload user_id t response gen_response w)))"
    using assms
    by (simp add: process_count_and_upload_def the_session_def item_def attempt_def emit_def
        finish_def show_teacher_menu_def world_of_def json_of_def Let_def split: sum.splits)
  ultimately show ?thesis by blast
qed

theorem count_parsed_or_ten_witness:
  "parse_count ''abc'' = 10 \<and> parse_count ''12abc'' = 10 \<and> parse_count ''5.0'' = 10
   \<and> parse_count ''25'' = 25 \<and> parse_count '' -1_000 '' = - 1000
   \<and> outbox (world_of (process_count_and_upload 3 ''abc''
        \<lparr>status = 201, body = Some (JObj [(''id'', JInt 9)])\<rparr>
        \<lparr>status = 500, body = Some (JObj [])\<rparr> wizard_world)) =
      [Send Uploading,
       Backend (Upload_post (JStr ''tok'') ''/tmp/tmpk3.ogg'' ''Cells'' ''Week 2'' ''4''),
       Backend (Generate_post (JStr ''tok'') ''both'' (JInt 9) 10 ''4''),
       Send (Generation_failed (JStr ''Unknown error''))]"
proof -
  have hyps: "subject_id (fsm_data wizard_world 3) = Some ''4''"
    "audio_file_path (fsm_data wizard_world 3) = Some ''/tmp/tmpk3.ogg''"
    "draft_title (fsm_data wizard_world 3) = Some ''Cells''"
    "draft_description (fsm_data wizard_world 3) = Some ''Week 2''"
    "content_type (fsm_data wizard_world 3) = Some ''both''"
    "USER_SESSIONS wizard_world 3 = Some teacher_session"
    "access_token teacher_session = Some (JStr ''tok'')"
    "''/tmp/tmpk3.ogg'' \<in> files wizard_world"
    by (simp_all add: wizard_world_def initial_world_def lesson_draft_def teacher_session_def)
  note inst = count_parsed_or_ten [OF hyps]
  have shape: "\<not> numeric ''abc''" "\<not> numeric ''12abc''" "\<not> numeric ''5.0''"
    "numeric ''25''" "numeric '' -1_000 ''"
    by code_simp+
  have val: "int_value ''25'' = 25" "int_value '' -1_000 '' = - 1000"
    by code_simp+
  have abc: "parse_count ''abc'' = 10"
    using inst [of "''abc''", THEN conjunct2, THEN conjunct1] shape by simp
  have mixed: "parse_count ''12abc'' = 10"
    using inst [of "''12abc''", THEN conjunct2, THEN conjunct1] shape by simp
  have point: "parse_count ''5.0'' = 10"
    using inst [of "''5.0''", THEN conjunct2, THEN conjunct1] shape by simp
  have num: "parse_count ''25'' = 25"
    using inst [of "''25''", THEN conjunct1] shape val by simp
  have neg: "parse_count '' -1_000 '' = - 1000"
    using inst [of "'' -1_000 ''", THEN conjunct1] shape val by simp
  have run: "outbox (world_of (process_count_and_upload 3 ''abc''
        \<lparr>status = 201, body = Some (JObj [(''id'', JInt 9)])\<rparr>
        \<lparr>status = 500, body = Some (JObj [])\<rparr> wizard_world)) =
      [Send Uploading,
       Backend (Upload_post (JStr ''tok'') ''/tmp/tmpk3.ogg'' ''Cells'' ''Week 2'' ''4''),
       Backend (Generate_post (JStr ''tok'') ''both'' (JInt 9) 10 ''4''),
       Send (Generation_failed (JStr ''Unknown error''))]"
    using abc
    by (simp add: process_count_and_upload_def error_text_def handler_defs initial_world_def
      wizard_world_def lesson_draft_def teacher_session_def empty_session_def Let_def)
  show ?thesis
    using abc mixed point num neg run by (intro conjI)
qed

text \<open>
  C8: a response that is not a success and carries no readable error message is to be
  answered with the text \<open>Unknown error\<close>, without the handler raising. The code does
  not do this for a body that is not JSON: an upload answered with status 502 and such a
  body makes the handler raise, and no failure text is sent.
\<close>

theorem undecodable_error_body_raises:
  "raised (process_count_and_upload 3 ''5'' \<lparr>status = 502, body = None\<rparr>
     \<lparr>status = 201, body = Some (JObj [])\<rparr> wizard_world) = Some JSONDecodeError
   \<and> outbox (world_of (process_count_and_upload 3 ''5'' \<lparr>status = 502, body = None\<rparr>
     \<lparr>status = 201, body = Some (JObj [])\<rparr> wizard_world)) =
     [Send Uploading,
      Backend (Upload_post (JStr ''tok'') ''/tmp/tmpk3.ogg'' ''Cells'' ''Week 2'' ''4'')]"
  by (simp add: process_count_and_upload_def error_text_def handler_defs initial_world_def
      wizard_world_def lesson_draft_def teacher_session_def empty_session_def Let_def)

text \<open>
  The default is reached when the body is a JSON object without an \<open>error\<close> member:
  then the handler returns after sending the failure text with \<open>Unknown error\<close>.
\<close>

lemma unknown_error_fallback:
  assumes "subject_id (fsm_data w user_id) = Some sid"
    and "audio_file_path (fsm_data w user_id) = Some path"
    and "draft_title (fsm_data w user_id) = Some ttl"
    and "draft_description (fsm_data w user_id) = Some descr"
    and "content_type (fsm_data w user_id) = Some ctype"
    and "USER_SESSIONS w user_id = Some s" and "access_token s = Some tok"
    and "path \<in> files w"
  shows "(status response \<noteq> 201 \<and> body response = Some (JObj kvs)
            \<and> ''error'' \<notin> fst ` set kvs \<longrightarrow>
          process_count_and_upload user_id t response gen_response w =
            Done (w\<lparr>outbox := outbox w @ [Send Uploading,
                    Backend (Upload_post tok path ttl descr sid),
                    Send (Upload_failed (JStr ''Unknown error''))]\<rparr>))
       \<and> (status response = 201 \<and> body response = Some d \<and> getitem d ''id'' = Inr aid
            \<and> status gen_response \<noteq> 201 \<and> body gen_response = Some (JObj kvs)
            \<and> ''error'' \<notin> fst ` set kvs \<longrightarrow>
          process_count_and_upload user_id t response gen_response w =
            Done (w\<lparr>outbox := outbox w @ [Send Uploading,
                    Backend (Upload_post tok path ttl descr sid),
                    Backend (Generate_post tok ctype aid (parse_count t) sid),
                    Send (Generation_failed (JStr ''Unknown error''))]\<rparr>))"
  using assms
  by (simp add: process_count_and_upload_def error_text_def handler_defs Let_def
      map_of_rev_missing)

subsection \<open>Authentication\<close>

text \<open>
  C10: tapping a login button replaces the whole session record of the user by a new one
  that holds the chosen role only; whatever the old record held, tokens included, is gone.
\<close>

theorem login_handler_replaces_session:
  "raised (login_handler user_id msg_text w) = None \<and>
   USER_SESSIONS (world_of (login_handler user_id msg_text w)) user_id =
     Some \<lparr>role = Some (if contains msg_text ''Teacher'' then ''teacher'' else ''student''),
           username = None, access_token = None, refresh_token = None,
           current_flashcards = None, current_index = None, current_quiz = None,
           current_question = None, correct_answers = None\<rparr>"
  by (simp add: login_handler_def handler_defs empty_session_def Let_def)

text \<open>
  C5, as stated, fails: a token response with status 201, which is a 2xx status, and a
  well-formed body is answered with the failure notice; no token is stored and the state
  is \<open>waiting_for_username\<close> again.
\<close>

theorem process_password_201_rejected:
  "raised (process_password 7 ''s3cret''
             \<lparr>status = 201, body = Some (JObj [(''access'', JStr ''a1''), (''refresh'', JStr ''r1'')])\<rparr>
             password_world) = None \<and>
   USER_SESSIONS (world_of (process_password 7 ''s3cret''
             \<lparr>status = 201, body = Some (JObj [(''access'', JStr ''a1''), (''refresh'', JStr ''r1'')])\<rparr>
             password_world)) 7 = USER_SESSIONS password_world 7 \<and>
   fsm (world_of (process_password 7 ''s3cret''
             \<lparr>status = 201, body = Some (JObj [(''access'', JStr ''a1''), (''refresh'', JStr ''r1'')])\<rparr>
             password_world)) 7 = Some AuthStates_waiting_for_username \<and>
   outbox (world_of (process_password 7 ''s3cret''
             \<lparr>status = 201, body = Some (JObj [(''access'', JStr ''a1''), (''refresh'', JStr ''r1'')])\<rparr>
             password_world)) =
     [Delete_message, Backend (Token_post ''amina'' ''s3cret''), Send Login_failed,
      Send Enter_username]"
  by (simp add: process_password_def handler_defs password_world_def initial_world_def
      empty_session_def Let_def)

text \<open>
  C5, amended: for a session that holds a username and a role, a token response with
  status 200 whose body has \<open>access\<close> and \<open>refresh\<close> stores both tokens, clears the state
  and shows the menu of the role; a response with any other status, 2xx or not, sends the
  failure notice, stores nothing and sets the state to \<open>waiting_for_username\<close>.
\<close>

theorem process_password_by_status:
  assumes "USER_SESSIONS w user_id = Some s" and "username s = Some uname"
    and "role s = Some r"
  shows "(status resp = 200 \<and> body resp = Some d \<and> getitem d ''access'' = Inr a
            \<and> getitem d ''refresh'' = Inr rf \<longrightarrow>
          process_password user_id pw resp w =
            Done (w\<lparr>USER_SESSIONS := (USER_SESSIONS w)(user_id \<mapsto>
                       s\<lparr>access_token := Some a, refresh_token := Some rf\<rparr>),
                    fsm := (fsm w)(user_id := None),
                    fsm_data := (fsm_data w)(user_id := empty_draft),
                    outbox := outbox w @ [Delete_message, Backend (Token_post uname pw),
                       Send (if r = ''teacher'' then Teacher_menu else Student_menu)]\<rparr>))
       \<and> (status resp \<noteq> 200 \<longrightarrow>
          process_password user_id pw resp w =
            Done (w\<lparr>fsm := (fsm w)(user_id \<mapsto> AuthStates_waiting_for_username),
                    outbox := outbox w @ [Delete_message, Backend (Token_post uname pw),
                       Send Login_failed, Send Enter_username]\<rparr>))"
  using assms
  by (simp add: process_password_def handler_defs Let_def)

theorem process_password_by_status_witness:
  "process_password 7 ''s3cret''
     \<lparr>status = 200, body = Some (JObj [(''access'', JStr ''a1''), (''refresh'', JStr ''r1'')])\<rparr>
     password_world =
     Done (password_world\<lparr>USER_SESSIONS := [7 \<mapsto> empty_session\<lparr>role := Some ''student'',
                username := Some ''amina'', access_token := Some (JStr ''a1''),
                refresh_token := Some (JStr ''r1'')\<rparr>],
             fsm := Map.empty,
             outbox := [Delete_message, Backend (Token_post ''amina'' ''s3cret''),
                        Send Student_menu]\<rparr>)
   \<and> process_password 7 ''s3cret'' \<lparr>status = 401, body = None\<rparr> password_world =
     Done (password_world\<lparr>fsm := [7 \<mapsto> AuthStates_waiting_for_username],
             outbox := [Delete_message, Backend (Token_post ''amina'' ''s3cret''),
                        Send Login_failed, Send Enter_username]\<rparr>)"
  using process_password_by_status [of password_world 7
      "empty_session\<lparr>role := Some ''student'', username := Some ''amina''\<rparr>"
      "''amina''" "''student''"
      "\<lparr>status = 200, body = Some (JObj [(''access'', JStr ''a1''), (''refresh'', JStr ''r1'')])\<rparr>"
      "JObj [(''access'', JStr ''a1''), (''refresh'', JStr ''r1'')]" "JStr ''a1''" "JStr ''r1''"
      "''s3cret''"]
    process_password_by_status [of password_world 7
      "empty_session\<lparr>role := Some ''student'', username := Some ''amina''\<rparr>"
      "''amina''" "''student''" "\<lparr>status = 401, body = None\<rparr>" _ _ _ "''s3cret''"]
  by (simp add: password_world_def initial_world_def empty_session_def empty_draft_def fun_upd_idem)

end
